theory Spec2Isabelle
  imports Complex_Main
begin

chapter \<open>Financial and subscription dashboards: record normalisation\<close>

text \<open>
  The development embeds the data pipeline of the two dashboard pages
  (\<^verbatim>\<open>pages/1_Financial_Dashboard.py\<close> and \<^verbatim>\<open>pages/2_Subscription_Dashboard.py\<close>).
  A pandas column operation is embedded as the function it applies to each row; a frame is
  the list of its rows. Conventions:
  \<^item> text is a \<^typ>\<open>string\<close> whose characters are the code points below 256 (Latin-1).
    White space, word characters, cased letters and the lower-case mapping are Python's
    on these code points. The upper-case mapping is Python's wherever its result is one
    character below 256; the three letters \<^verbatim>\<open>0xDF\<close>, \<^verbatim>\<open>0xB5\<close> and \<^verbatim>\<open>0xFF\<close>, whose
    upper-case forms are not, are left as they are;
  \<^item> a cell of a column that pandas read as numbers enters as the text that
    \<^verbatim>\<open>astype(str)\<close> gives it;
  \<^item> a float column of the financial page holds exact decimals (\<^typ>\<open>rat\<close>); a missing
    number is \<open>None\<close>;
  \<^item> \<^verbatim>\<open>pd.to_datetime\<close> is a parameter of both pages (\<open>to_datetime\<close>, \<open>parse_date\<close>): any
    function to an optional timestamp. \<^verbatim>\<open>pd.to_numeric\<close> is a parameter of the
    subscriptions page, whose amount text may hold any characters; on the financial page it
    only meets digits, points and minus signs, and is written out there.
\<close>

section \<open>Cells and text primitives\<close>

text \<open>An object cell of a frame: a string, \<^verbatim>\<open>np.nan\<close>, \<^verbatim>\<open>pd.NA\<close> or \<^verbatim>\<open>None\<close>.\<close>

datatype cell = Str string | NaN | NA | PyNone

text \<open>\<^verbatim>\<open>Series.astype(str)\<close> on one cell.\<close>

fun astype_str :: "cell \<Rightarrow> string" where
  "astype_str (Str s) = s"
| "astype_str NaN = ''nan''"
| "astype_str NA = ''<NA>''"
| "astype_str PyNone = ''None''"

text \<open>\<^verbatim>\<open>Series.isna()\<close> on one cell.\<close>

fun isna :: "cell \<Rightarrow> bool" where
  "isna (Str s) = False"
| "isna NaN = True"
| "isna NA = True"
| "isna PyNone = True"

definition is_space :: "char \<Rightarrow> bool" where
  "is_space c = (let n = (of_char c :: nat) in
     (9 \<le> n \<and> n \<le> 13) \<or> (28 \<le> n \<and> n \<le> 32) \<or> n = 133 \<or> n = 160)"

text \<open>The ASCII ranges \<^verbatim>\<open>a-z\<close>, \<^verbatim>\<open>A-Z\<close> and \<^verbatim>\<open>0-9\<close>.\<close>

definition is_lower_az :: "char \<Rightarrow> bool" where
  "is_lower_az c = (97 \<le> (of_char c :: nat) \<and> (of_char c :: nat) \<le> 122)"

definition is_upper_az :: "char \<Rightarrow> bool" where
  "is_upper_az c = (65 \<le> (of_char c :: nat) \<and> (of_char c :: nat) \<le> 90)"

definition is_digit :: "char \<Rightarrow> bool" where
  "is_digit c = (48 \<le> (of_char c :: nat) \<and> (of_char c :: nat) \<le> 57)"

text \<open>
  The class \<^verbatim>\<open>\w\<close> of a regular expression on \<^verbatim>\<open>str\<close>: the underscore and every
  character that \<^verbatim>\<open>str.isalnum\<close> accepts. Below 256 these are the ASCII letters and
  digits, the letters \<^verbatim>\<open>0xAA\<close>, \<^verbatim>\<open>0xB5\<close>, \<^verbatim>\<open>0xBA\<close>, \<^verbatim>\<open>0xC0-0xD6\<close>, \<^verbatim>\<open>0xD8-0xF6\<close>,
  \<^verbatim>\<open>0xF8-0xFF\<close>, the superscript digits \<^verbatim>\<open>0xB2\<close>, \<^verbatim>\<open>0xB3\<close>, \<^verbatim>\<open>0xB9\<close> and the
  fractions \<^verbatim>\<open>0xBC-0xBE\<close>.
\<close>

definition is_word :: "char \<Rightarrow> bool" where
  "is_word c = (let n = (of_char c :: nat) in
     is_lower_az c \<or> is_upper_az c \<or> is_digit c \<or> c = CHR ''_'' \<or>
     n = 170 \<or> n = 178 \<or> n = 179 \<or> n = 181 \<or> n = 185 \<or> n = 186 \<or>
     (188 \<le> n \<and> n \<le> 190) \<or> (192 \<le> n \<and> n \<le> 214) \<or>
     (216 \<le> n \<and> n \<le> 246) \<or> 248 \<le> n)"

text \<open>
  Letters with a lower-case form (\<^verbatim>\<open>A-Z\<close>, \<^verbatim>\<open>0xC0-0xD6\<close>, \<^verbatim>\<open>0xD8-0xDE\<close>), letters with
  an upper-case form that is one character below 256 (\<^verbatim>\<open>a-z\<close>, \<^verbatim>\<open>0xE0-0xF6\<close>,
  \<^verbatim>\<open>0xF8-0xFE\<close>), and the cased characters of \<^verbatim>\<open>str.title\<close>.
\<close>

definition has_lower :: "char \<Rightarrow> bool" where
  "has_lower c = (let n = (of_char c :: nat) in
     (65 \<le> n \<and> n \<le> 90) \<or> (192 \<le> n \<and> n \<le> 214) \<or> (216 \<le> n \<and> n \<le> 222))"

definition has_upper :: "char \<Rightarrow> bool" where
  "has_upper c = (let n = (of_char c :: nat) in
     (97 \<le> n \<and> n \<le> 122) \<or> (224 \<le> n \<and> n \<le> 246) \<or> (248 \<le> n \<and> n \<le> 254))"

definition is_cased :: "char \<Rightarrow> bool" where
  "is_cased c = (let n = (of_char c :: nat) in
     (65 \<le> n \<and> n \<le> 90) \<or> (97 \<le> n \<and> n \<le> 122) \<or> n = 170 \<or> n = 181 \<or> n = 186 \<or>
     (192 \<le> n \<and> n \<le> 214) \<or> (216 \<le> n \<and> n \<le> 246) \<or> 248 \<le> n)"

definition lower_char :: "char \<Rightarrow> char" where
  "lower_char c = (if has_lower c then char_of (of_char c + 32 :: nat) else c)"

definition upper_char :: "char \<Rightarrow> char" where
  "upper_char c = (if has_upper c then char_of (of_char c - 32 :: nat) else c)"

text \<open>\<^verbatim>\<open>str.lower\<close>, \<^verbatim>\<open>str.upper\<close>, \<^verbatim>\<open>str.strip\<close>.\<close>

definition py_lower :: "string \<Rightarrow> string" where
  "py_lower s = map lower_char s"

definition py_upper :: "string \<Rightarrow> string" where
  "py_upper s = map upper_char s"

definition lstrip :: "string \<Rightarrow> string" where
  "lstrip s = dropWhile is_space s"

definition rstrip :: "string \<Rightarrow> string" where
  "rstrip s = rev (dropWhile is_space (rev s))"

definition strip :: "string \<Rightarrow> string" where
  "strip s = rstrip (lstrip s)"

text \<open>
  \<^verbatim>\<open>str.title\<close>: a character that follows a cased character is lowered, any other
  character is raised. The flag says whether the previous character was cased.
\<close>

fun title_from :: "bool \<Rightarrow> string \<Rightarrow> string" where
  "title_from prev [] = []"
| "title_from prev (c # cs) =
     (if prev then lower_char c else upper_char c) # title_from (is_cased c) cs"

definition title :: "string \<Rightarrow> string" where
  "title s = title_from False s"

text \<open>\<^verbatim>\<open>str.startswith\<close> and the substring test \<^verbatim>\<open>sub in s\<close>.\<close>

fun startswith :: "string \<Rightarrow> string \<Rightarrow> bool" where
  "startswith [] s = True"
| "startswith (p # ps) [] = False"
| "startswith (p # ps) (c # cs) = (p = c \<and> startswith ps cs)"

fun contains :: "string \<Rightarrow> string \<Rightarrow> bool" where
  "contains sub [] = (sub = [])"
| "contains sub (c # cs) = (startswith sub (c # cs) \<or> contains sub cs)"

section \<open>Category canonicaliser (subscriptions page)\<close>

text \<open>
  \<^verbatim>\<open>re.sub(r"[^a-z]+", " ", s)\<close>: every maximal run of characters outside \<^verbatim>\<open>a-z\<close>
  becomes one space. The flag says whether the scan is inside such a run.
\<close>

fun sub_nonletters :: "bool \<Rightarrow> string \<Rightarrow> string" where
  "sub_nonletters in_run [] = []"
| "sub_nonletters in_run (c # cs) =
     (if is_lower_az c then c # sub_nonletters False cs
      else if in_run then sub_nonletters True cs
      else CHR '' '' # sub_nonletters True cs)"

definition TYPE_CANON_DICT :: "(string \<times> string) list" where
  "TYPE_CANON_DICT =
     [(''tech'', ''Tech''), (''technology'', ''Tech''), (''it'', ''Tech''),
      (''software'', ''Tech''), (''saas'', ''Tech''), (''cloud'', ''Tech''),
      (''marketing'', ''Marketing''), (''mkt'', ''Marketing''),
      (''green'', ''Green''), (''sustainability'', ''Green''),
      (''other'', ''Others''), (''others'', ''Others'')]"

text \<open>The first two statements of \<^verbatim>\<open>_canon_type\<close>: the cleaned key \<^verbatim>\<open>s\<close>.\<close>

definition canon_key :: "string \<Rightarrow> string" where
  "canon_key val = strip (sub_nonletters False (py_lower (strip val)))"

text \<open>\<^verbatim>\<open>_canon_type\<close> (an Isabelle name cannot start with an underscore).\<close>

definition canon_type :: "string \<Rightarrow> string" where
  "canon_type val =
     (let s = canon_key val in
      case map_of TYPE_CANON_DICT s of
        Some v \<Rightarrow> v
      | None \<Rightarrow>
          if startswith ''tech'' s \<or> contains ''technolog'' s then ''Tech''
          else if contains ''market'' s then ''Marketing''
          else if contains ''green'' s \<or> contains ''sustain'' s then ''Green''
          else if contains ''other'' s then ''Others''
          else if s \<noteq> [] then title s else ''Others'')"

text \<open>
  Strings made of the letters \<^verbatim>\<open>a-z\<close> and single spaces: the shape of every cleaned key
  (used in the proofs only).
\<close>

fun spaced :: "string \<Rightarrow> bool" where
  "spaced [] = True"
| "spaced (c # cs) =
     ((is_lower_az c \<or> c = CHR '' '') \<and>
      (c = CHR '' '' \<longrightarrow> cs = [] \<or> hd cs \<noteq> CHR '' '') \<and> spaced cs)"

section \<open>Numeric cleaning\<close>

definition digit_value :: "char \<Rightarrow> nat" where
  "digit_value c = of_char c - 48"

definition digits_value :: "string \<Rightarrow> nat" where
  "digits_value s = foldl (\<lambda>acc c. 10 * acc + digit_value c) 0 s"

text \<open>
  An unsigned decimal literal: digits, optionally a point and more digits, with a digit on
  at least one side of the point.
\<close>

definition unsigned_decimal :: "string \<Rightarrow> rat option" where
  "unsigned_decimal s =
     (let ip = takeWhile is_digit s; rest = dropWhile is_digit s in
      case rest of
        [] \<Rightarrow> if ip = [] then None else Some (of_nat (digits_value ip))
      | c # fp \<Rightarrow>
          if c = CHR ''.'' \<and> list_all is_digit fp \<and> (ip \<noteq> [] \<or> fp \<noteq> [])
          then Some (of_nat (digits_value ip) + of_nat (digits_value fp) / 10 ^ length fp)
          else None)"

text \<open>
  A signed decimal literal and its value. Among the strings of digits, points and signs
  these are the ones that \<^verbatim>\<open>pd.to_numeric(..., errors="coerce")\<close> reads as a number, with
  this value; the empty string and every other such string give a missing number.
\<close>

definition decimal_literal :: "string \<Rightarrow> rat option" where
  "decimal_literal s =
     (case s of
        [] \<Rightarrow> None
      | c # cs \<Rightarrow>
          if c = CHR ''-'' then map_option uminus (unsigned_decimal cs)
          else if c = CHR ''+'' then unsigned_decimal cs
          else unsigned_decimal s)"

text \<open>\<^verbatim>\<open>.fillna(0.0)\<close> on one number.\<close>

definition fillna0 :: "rat option \<Rightarrow> rat" where
  "fillna0 v = (case v of None \<Rightarrow> 0 | Some x \<Rightarrow> x)"

text \<open>\<^verbatim>\<open>.str.replace(r"[^\d.\-]", "", regex=True)\<close>.\<close>

definition keep_numeric_chars :: "string \<Rightarrow> string" where
  "keep_numeric_chars s = filter (\<lambda>c. is_digit c \<or> c = CHR ''.'' \<or> c = CHR ''-'') s"

text \<open>
  The amount of both exports (\<^verbatim>\<open>bf["Amount"]\<close>, \<^verbatim>\<open>ef["Amount"]\<close>):
  \<^verbatim>\<open>astype(str)\<close>, character filter, \<^verbatim>\<open>to_numeric\<close>, \<^verbatim>\<open>fillna(0.0)\<close>. The filter leaves
  only digits, points and minus signs, so \<^verbatim>\<open>to_numeric\<close> reads a decimal literal or nothing.
\<close>

definition clean_amount :: "cell \<Rightarrow> rat" where
  "clean_amount c = fillna0 (decimal_literal (keep_numeric_chars (astype_str c)))"

section \<open>Counterparty extraction\<close>

text \<open>
  \<^verbatim>\<open>.str.extract(r"\bto\s+(.+?)(?=[,;()]+|$)", expand=False)\<close>, read as the backtracking
  search that the expression denotes. No flag is passed: the match is case-sensitive,
  \<^verbatim>\<open>.\<close> does not match a line feed and \<^verbatim>\<open>$\<close> matches at the end of the string or
  before a line feed that ends it.
\<close>

definition is_delim :: "char \<Rightarrow> bool" where
  "is_delim c = (c = CHR '','' \<or> c = CHR '';'' \<or> c = CHR ''('' \<or> c = CHR '')'')"

text \<open>The lookahead \<^verbatim>\<open>(?=[,;()]+|$)\<close> on the rest of the input.\<close>

fun lookahead :: "string \<Rightarrow> bool" where
  "lookahead [] = True"
| "lookahead (c # cs) = (is_delim c \<or> (c = CHR 0x0A \<and> cs = []))"

text \<open>The lazy group \<^verbatim>\<open>(.+?)\<close> followed by the lookahead: the shortest capture.\<close>

fun lazy_group :: "string \<Rightarrow> string option" where
  "lazy_group [] = None"
| "lazy_group (c # cs) =
     (if c = CHR 0x0A then None
      else if lookahead cs then Some [c]
      else map_option ((#) c) (lazy_group cs))"

text \<open>
  The greedy \<^verbatim>\<open>\s+\<close> before the group: the longest run of white space is tried first,
  then shorter ones.
\<close>

fun ws_star :: "string \<Rightarrow> string option" where
  "ws_star [] = lazy_group []"
| "ws_star (c # cs) =
     (if is_space c
      then (case ws_star cs of Some g \<Rightarrow> Some g | None \<Rightarrow> lazy_group (c # cs))
      else lazy_group (c # cs))"

fun ws_plus :: "string \<Rightarrow> string option" where
  "ws_plus [] = None"
| "ws_plus (c # cs) = (if is_space c then ws_star cs else None)"

text \<open>
  A match that starts at the current position; \<open>prev\<close> is the character before it, for
  the word boundary \<^verbatim>\<open>\b\<close> in front of the letter \<^verbatim>\<open>t\<close>.
\<close>

fun at_boundary :: "char option \<Rightarrow> bool" where
  "at_boundary None = True"
| "at_boundary (Some p) = (\<not> is_word p)"

fun match_here :: "char option \<Rightarrow> string \<Rightarrow> string option" where
  "match_here prev (a # b # rest) =
     (if at_boundary prev \<and> a = CHR ''t'' \<and> b = CHR ''o'' then ws_plus rest else None)"
| "match_here prev s = None"

text \<open>\<^verbatim>\<open>re.search\<close>: the first position with a match, scanning from the left.\<close>

fun search_to :: "char option \<Rightarrow> string \<Rightarrow> string option" where
  "search_to prev [] = None"
| "search_to prev (c # cs) =
     (case match_here prev (c # cs) of
        Some g \<Rightarrow> Some g
      | None \<Rightarrow> search_to (Some c) cs)"

definition extract_to :: "string \<Rightarrow> string option" where
  "extract_to s = search_to None s"

text \<open>
  \<^verbatim>\<open>bf["Employee"]\<close>: the captured group, stripped; \<^verbatim>\<open>NaN\<close> when nothing matches.
\<close>

definition Employee_of :: "cell \<Rightarrow> cell" where
  "Employee_of d =
     (case extract_to (astype_str d) of None \<Rightarrow> NaN | Some g \<Rightarrow> Str (strip g))"

text \<open>
  The extraction rule in words, for comparison with the search above. As the code has it:
  the text after the first lower-case \<^verbatim>\<open>to\<close> that starts at a word boundary and is
  followed by white space and at least one more character; the counterparty starts after
  that white space and runs to the next of \<^verbatim>\<open>, ; ( )\<close> that is not its first
  character, or to the end; it is then stripped.
\<close>

fun spec_after_to :: "char option \<Rightarrow> string \<Rightarrow> string option" where
  "spec_after_to prev (a # b # w # x # rest) =
     (if at_boundary prev \<and> a = CHR ''t'' \<and> b = CHR ''o'' \<and> is_space w
      then Some (w # x # rest)
      else spec_after_to (Some a) (b # w # x # rest))"
| "spec_after_to prev s = None"

fun upto_delim :: "string \<Rightarrow> string" where
  "upto_delim [] = []"
| "upto_delim (c # cs) = c # takeWhile (\<lambda>x. \<not> is_delim x) cs"

definition spec_counterparty :: "string \<Rightarrow> string option" where
  "spec_counterparty s =
     map_option (\<lambda>rest. strip (upto_delim (lstrip rest))) (spec_after_to None s)"

text \<open>
  The rule as the specification words it: the first occurrence of the word \<^verbatim>\<open>to\<close> in
  any letter case, the text after it up to the next of \<^verbatim>\<open>, ; ( )\<close> or the end, stripped.
\<close>

fun spec_after_to_nocase :: "char option \<Rightarrow> string \<Rightarrow> string option" where
  "spec_after_to_nocase prev (a # b # rest) =
     (if at_boundary prev \<and> lower_char a = CHR ''t'' \<and> lower_char b = CHR ''o'' \<and>
         (case rest of [] \<Rightarrow> True | w # ws \<Rightarrow> at_boundary (Some w))
      then Some rest
      else spec_after_to_nocase (Some a) (b # rest))"
| "spec_after_to_nocase prev s = None"

definition spec_counterparty_nocase :: "string \<Rightarrow> string option" where
  "spec_counterparty_nocase s =
     map_option (\<lambda>rest. strip (takeWhile (\<lambda>x. \<not> is_delim x) rest)) (spec_after_to_nocase None s)"

section \<open>Financial page: the two exports and the unified table\<close>

text \<open>A naive timestamp: calendar date and nanoseconds since midnight.\<close>

record timestamp =
  ts_year :: nat
  ts_month :: nat
  ts_day :: nat
  ts_nanos :: nat

text \<open>\<^verbatim>\<open>strftime("%b")\<close> in the C locale.\<close>

definition month_abbr_table :: "string list" where
  "month_abbr_table =
     [''Jan'', ''Feb'', ''Mar'', ''Apr'', ''May'', ''Jun'',
      ''Jul'', ''Aug'', ''Sep'', ''Oct'', ''Nov'', ''Dec'']"

definition month_abbr :: "nat \<Rightarrow> string" where
  "month_abbr m = (if 1 \<le> m \<and> m \<le> 12 then month_abbr_table ! (m - 1) else [])"

definition digit_char :: "nat \<Rightarrow> char" where
  "digit_char d = char_of (48 + d)"

fun show_nat :: "nat \<Rightarrow> string" where
  "show_nat n = (if n < 10 then [digit_char n] else show_nat (n div 10) @ [digit_char (n mod 10)])"

text \<open>
  The derived time columns: \<^verbatim>\<open>dt.date\<close>, \<^verbatim>\<open>dt.strftime("%b").str.upper()\<close> and
  \<^verbatim>\<open>dt.year.astype("Int64").astype(str)\<close>; a missing time gives a missing date and month
  and the text \<^verbatim>\<open><NA>\<close> for the year.
\<close>

definition date_of :: "timestamp option \<Rightarrow> (nat \<times> nat \<times> nat) option" where
  "date_of t = map_option (\<lambda>x. (ts_year x, ts_month x, ts_day x)) t"

definition month_of :: "timestamp option \<Rightarrow> string option" where
  "month_of t = map_option (\<lambda>x. py_upper (month_abbr (ts_month x))) t"

definition year_of :: "timestamp option \<Rightarrow> string" where
  "year_of t = (case t of None \<Rightarrow> ''<NA>'' | Some x \<Rightarrow> show_nat (ts_year x))"

text \<open>
  \<^verbatim>\<open>pd.to_datetime(text, format="%Y-%b-%d", errors="coerce")\<close>: four digits, a month
  abbreviation in any letter case, one or two digits of a day from 1 to 31.
\<close>

definition month_number :: "string \<Rightarrow> nat option" where
  "month_number b =
     map_of (zip (map py_lower month_abbr_table) [1 ..< 13]) (py_lower b)"

definition strptime_Y_b_d :: "string \<Rightarrow> timestamp option" where
  "strptime_Y_b_d s =
     (let y = take 4 s; b = take 3 (drop 5 s); d = drop 9 s in
      if length y = 4 \<and> list_all is_digit y \<and> take 1 (drop 4 s) = ''-'' \<and>
         take 1 (drop 8 s) = ''-'' \<and> d \<noteq> [] \<and> length d \<le> 2 \<and> list_all is_digit d \<and>
         1 \<le> digits_value d \<and> digits_value d \<le> 31
      then (case month_number b of
              None \<Rightarrow> None
            | Some m \<Rightarrow>
                Some \<lparr>ts_year = digits_value y, ts_month = m, ts_day = digits_value d,
                      ts_nanos = 0\<rparr>)
      else None)"

definition monthyear_of :: "string \<Rightarrow> string option \<Rightarrow> timestamp option" where
  "monthyear_of y m =
     (case m of None \<Rightarrow> None | Some b \<Rightarrow> strptime_Y_b_d (y @ ''-'' @ b @ ''-01''))"

text \<open>The columns of the balance export that the page reads, after \<^verbatim>\<open>_pick\<close>.\<close>

record balance_raw =
  fin_type_col :: cell
  time_col :: cell
  desc_col :: cell
  txn_col :: cell
  amount_col :: cell

text \<open>The columns of the expenses export that the page reads.\<close>

record expense_raw =
  timestamp_utc_col :: cell
  employees_col :: cell
  transaction_id_col :: cell
  billing_amount_col :: cell
  expense_category_col :: cell
  expense_status_col :: cell

text \<open>
  A row of \<^verbatim>\<open>balance_filtered\<close>, of \<^verbatim>\<open>expense_filtered\<close> and of their concatenation
  \<^verbatim>\<open>final_dataframe\<close>.
\<close>

record frow =
  Time :: "timestamp option"
  Date :: "(nat \<times> nat \<times> nat) option"
  Month :: "string option"
  Year :: string
  Employee :: cell
  Transaction_Id :: cell
  Amount :: rat
  Expense_category :: cell
  Expense_status :: cell
  Type :: string
  Debit_Net_Amount :: rat
  Credit_Net_Amount :: rat

text \<open>A row of the unified table \<^verbatim>\<open>df\<close>: the columns above and the four derived ones.\<close>

record urow = frow +
  User :: string
  Category :: cell
  MonthYear :: "timestamp option"
  Final_Amount :: rat

subsection \<open>Balance export\<close>

definition ft :: "balance_raw \<Rightarrow> string" where
  "ft b = py_upper (strip (astype_str (fin_type_col b)))"

definition mask :: "balance_raw \<Rightarrow> bool" where
  "mask b = (ft b \<in> set [''DEPOSIT'', ''CARD_REFUND'', ''PAYOUT'', ''ADJUSTMENT''])"

text \<open>The \<^verbatim>\<open>np.select\<close> of \<^verbatim>\<open>bf["Expense category"]\<close>.\<close>

definition balance_category :: "string \<Rightarrow> cell" where
  "balance_category ty =
     (if ty = ''PAYOUT'' then Str ''Transfers''
      else if ty = ''ADJUSTMENT'' then Str ''Air wallex Expense''
      else NA)"

definition balance_row :: "(cell \<Rightarrow> timestamp option) \<Rightarrow> balance_raw \<Rightarrow> frow" where
  "balance_row to_datetime b =
     (let ty = ft b;
          amt = clean_amount (amount_col b);
          t = to_datetime (Str (astype_str (time_col b)))
      in \<lparr>Time = t, Date = date_of t, Month = month_of t, Year = year_of t,
          Employee = Employee_of (desc_col b),
          Transaction_Id = txn_col b,
          Amount = amt,
          Expense_category = balance_category ty,
          Expense_status = NaN,
          Type = ty,
          Debit_Net_Amount = (if ty \<in> set [''PAYOUT'', ''ADJUSTMENT''] then amt else 0),
          Credit_Net_Amount = (if ty \<in> set [''DEPOSIT'', ''CARD_REFUND''] then amt else 0)\<rparr>)"

definition balance_filtered ::
  "(cell \<Rightarrow> timestamp option) \<Rightarrow> balance_raw list \<Rightarrow> frow list" where
  "balance_filtered to_datetime balance_file = map (balance_row to_datetime) (filter mask balance_file)"

subsection \<open>Expenses export\<close>

text \<open>\<^verbatim>\<open>.str.split(",").str[0]\<close>.\<close>

definition first_token :: "string \<Rightarrow> string" where
  "first_token s = takeWhile (\<lambda>c. c \<noteq> CHR '','') s"

definition expense_row :: "(cell \<Rightarrow> timestamp option) \<Rightarrow> expense_raw \<Rightarrow> frow" where
  "expense_row to_datetime e =
     (let t = to_datetime (timestamp_utc_col e);
          amt = clean_amount (billing_amount_col e)
      in \<lparr>Time = t, Date = date_of t, Month = month_of t, Year = year_of t,
          Employee = Str (strip (first_token (astype_str (employees_col e)))),
          Transaction_Id = transaction_id_col e,
          Amount = amt,
          Expense_category = Str (strip (astype_str (expense_category_col e))),
          Expense_status = expense_status_col e,
          Type = ''CARD'',
          Debit_Net_Amount = amt,
          Credit_Net_Amount = 0\<rparr>)"

definition expense_filtered ::
  "(cell \<Rightarrow> timestamp option) \<Rightarrow> expense_raw list \<Rightarrow> frow list" where
  "expense_filtered to_datetime expense_file = map (expense_row to_datetime) expense_file"

text \<open>
  \<^verbatim>\<open>pd.concat\<close> takes an object column of one frame whose cells are all missing, the first
  of them not \<^verbatim>\<open>None\<close>, into the result as \<^verbatim>\<open>NaN\<close>. Among the columns of the two frames
  this changes cells only in \<^verbatim>\<open>Expense category\<close> of \<^verbatim>\<open>balance_filtered\<close>, whose missing
  cells are \<^verbatim>\<open>pd.NA\<close>.
\<close>

definition concat_all_na :: "frow list \<Rightarrow> frow list" where
  "concat_all_na frame =
     (if list_all (\<lambda>r. isna (Expense_category r)) frame \<and>
         (case frame of [] \<Rightarrow> False | r # rs \<Rightarrow> Expense_category r \<noteq> PyNone)
      then map (\<lambda>r. r\<lparr>Expense_category := NaN\<rparr>) frame
      else frame)"

definition final_dataframe ::
  "(cell \<Rightarrow> timestamp option) \<Rightarrow> expense_raw list \<Rightarrow> balance_raw list \<Rightarrow> frow list" where
  "final_dataframe to_datetime expense_file balance_file =
     expense_filtered to_datetime expense_file @
     concat_all_na (balance_filtered to_datetime balance_file)"

subsection \<open>Unifier: the re-derivation step on \<^verbatim>\<open>df\<close>\<close>

text \<open>
  Each definition is one statement of the page, applied to one row; the number in a name
  is the line of the statement. The step reads the columns of \<^verbatim>\<open>final_dataframe\<close> and
  assigns whole columns, so a row may already carry the derived columns.
\<close>

definition type_upper :: "'a frow_scheme \<Rightarrow> string" where
  "type_upper r = py_upper (strip (Type r))"

text \<open>\<^verbatim>\<open>.str.replace(r"\s+", " ", regex=True)\<close> and \<^verbatim>\<open>.str.replace(u"\xa0", " ")\<close>.\<close>

fun sub_spaces :: "bool \<Rightarrow> string \<Rightarrow> string" where
  "sub_spaces in_run [] = []"
| "sub_spaces in_run (c # cs) =
     (if \<not> is_space c then c # sub_spaces False cs
      else if in_run then sub_spaces True cs
      else CHR '' '' # sub_spaces True cs)"

definition replace_nbsp :: "string \<Rightarrow> string" where
  "replace_nbsp s = map (\<lambda>c. if c = CHR 0xA0 then CHR '' '' else c) s"

definition User_220 :: "'a frow_scheme \<Rightarrow> string" where
  "User_220 r = title (strip (replace_nbsp (sub_spaces False (astype_str (Employee r)))))"

definition Category_221 :: "'a frow_scheme \<Rightarrow> cell" where
  "Category_221 r = Str (strip (astype_str (Expense_category r)))"

text \<open>At line 223 the column \<^verbatim>\<open>df["Type"]\<close> already holds \<^verbatim>\<open>type_upper\<close>.\<close>

definition adj_mask :: "'a frow_scheme \<Rightarrow> bool" where
  "adj_mask r = (py_upper (type_upper r) = ''ADJUSTMENT'')"

definition User_224 :: "'a frow_scheme \<Rightarrow> string" where
  "User_224 r = (if adj_mask r then ''Adjustments'' else User_220 r)"

definition Category_225 :: "'a frow_scheme \<Rightarrow> cell" where
  "Category_225 r = (if adj_mask r then Str ''Air wallex Expense'' else Category_221 r)"

definition card_mask :: "'a frow_scheme \<Rightarrow> bool" where
  "card_mask r = (type_upper r = ''CARD'')"

text \<open>\<^verbatim>\<open>.replace({"": pd.NA, "nan": pd.NA, "None": pd.NA})\<close>.\<close>

definition replace_blank :: "string \<Rightarrow> cell" where
  "replace_blank s = (if s \<in> set ['''', ''nan'', ''None''] then NA else Str s)"

definition Category_228 :: "'a frow_scheme \<Rightarrow> cell" where
  "Category_228 r =
     (if card_mask r then replace_blank (strip (astype_str (Expense_category r)))
      else Category_225 r)"

definition incomplete_mask :: "'a frow_scheme \<Rightarrow> bool" where
  "incomplete_mask r =
     (card_mask r \<and> isna (Category_228 r) \<and>
      py_lower (strip (astype_str (Expense_status r))) = ''incomplete'')"

definition Category_239 :: "'a frow_scheme \<Rightarrow> cell" where
  "Category_239 r = (if incomplete_mask r then Str ''Incomplete'' else Category_228 r)"

text \<open>
  Lines 257 to 263. The three numeric columns are float columns without missing values
  when the step runs, so \<^verbatim>\<open>to_numeric(...).fillna(0.0)\<close> returns them as they are.
\<close>

definition t_upper :: "'a frow_scheme \<Rightarrow> string" where
  "t_upper r = py_upper (type_upper r)"

definition missing_mask :: "'a frow_scheme \<Rightarrow> bool" where
  "missing_mask r = (Debit_Net_Amount r = 0 \<and> Credit_Net_Amount r = 0)"

definition debit_types :: "string list" where
  "debit_types = [''CARD'', ''PAYOUT'', ''ADJUSTMENT'']"

definition credit_types :: "string list" where
  "credit_types = [''DEPOSIT'', ''CARD_REFUND'']"

definition Debit_262 :: "'a frow_scheme \<Rightarrow> rat" where
  "Debit_262 r =
     (if missing_mask r \<and> t_upper r \<in> set debit_types then Amount r else Debit_Net_Amount r)"

definition Credit_263 :: "'a frow_scheme \<Rightarrow> rat" where
  "Credit_263 r =
     (if missing_mask r \<and> t_upper r \<in> set credit_types then Amount r else Credit_Net_Amount r)"

text \<open>The whole step, lines 209 to 263, on one row.\<close>

definition rederive :: "'a frow_scheme \<Rightarrow> urow" where
  "rederive r =
     \<lparr>Time = Time r, Date = Date r,
      Month = month_of (Time r), Year = year_of (Time r),
      Employee = Employee r,
      Transaction_Id = Transaction_Id r,
      Amount = Amount r,
      Expense_category = Expense_category r,
      Expense_status = Expense_status r,
      Type = type_upper r,
      Debit_Net_Amount = Debit_262 r,
      Credit_Net_Amount = Credit_263 r,
      User = User_224 r,
      Category = Category_239 r,
      MonthYear = monthyear_of (year_of (Time r)) (month_of (Time r)),
      Final_Amount = Debit_Net_Amount r\<rparr>"

text \<open>The unified table \<^verbatim>\<open>df\<close> that the page builds from the two uploads.\<close>

definition unified ::
  "(cell \<Rightarrow> timestamp option) \<Rightarrow> expense_raw list \<Rightarrow> balance_raw list \<Rightarrow> urow list" where
  "unified to_datetime expense_file balance_file =
     map rederive (final_dataframe to_datetime expense_file balance_file)"

section \<open>Missing-transaction checker\<close>

text \<open>
  A frame whose columns are looked up by name: the column names in order and the rows,
  each a map from column name to cell. A cell that a row lacks reads as \<^verbatim>\<open>NaN\<close>.
\<close>

record dataframe =
  columns :: "string list"
  rows :: "(string \<rightharpoonup> cell) list"

text \<open>\<^verbatim>\<open>pd.DataFrame()\<close> and \<^verbatim>\<open>DataFrame.empty\<close>.\<close>

definition empty_frame :: dataframe where
  "empty_frame = \<lparr>columns = [], rows = []\<rparr>"

definition df_empty :: "dataframe \<Rightarrow> bool" where
  "df_empty d = (columns d = [] \<or> rows d = [])"

definition cell_at :: "(string \<rightharpoonup> cell) \<Rightarrow> string \<Rightarrow> cell" where
  "cell_at r c = (case r c of None \<Rightarrow> NaN | Some v \<Rightarrow> v)"

text \<open>\<^verbatim>\<open>_map_cols\<close>: a later column with the same key replaces an earlier one.\<close>

definition map_cols :: "dataframe \<Rightarrow> (string \<rightharpoonup> string)" where
  "map_cols d = map_of (rev (map (\<lambda>c. (strip (py_lower c), c)) (columns d)))"

text \<open>\<^verbatim>\<open>_pick_name\<close>.\<close>

fun pick_name :: "dataframe \<Rightarrow> (string \<rightharpoonup> string) \<Rightarrow> string list \<Rightarrow> string option" where
  "pick_name d cmap [] = None"
| "pick_name d cmap (c # candidates) =
     (case cmap (py_lower c) of
        None \<Rightarrow> pick_name d cmap candidates
      | Some k \<Rightarrow> if k \<in> set (columns d) then Some k else pick_name d cmap candidates)"

text \<open>\<^verbatim>\<open>_norm_id\<close> on one cell, and the validity test of \<^verbatim>\<open>_pair_missing\<close>.\<close>

definition norm_id :: "cell \<Rightarrow> string" where
  "norm_id v = py_lower (strip (astype_str v))"

definition valid_id :: "string \<Rightarrow> bool" where
  "valid_id k = (k \<noteq> [] \<and> k \<noteq> ''nan'')"

definition tid_candidates :: "string list" where
  "tid_candidates = [''Transaction Id'', ''TransactionID'', ''Transaction_Id'']"

definition nice_candidates :: "string list list" where
  "nice_candidates =
     [tid_candidates,
      [''Time'', ''Created At'', ''Transaction timestamp UTC''],
      [''Type''],
      [''Financial Transaction Type'', ''Financial transaction type'', ''Financial_Type''],
      [''Description'', ''Reference''],
      [''Amount'', ''Transaction amount'', ''Billing amount''],
      [''Debit Net Amount'', ''Debit Amount''],
      [''Credit Net Amount'', ''Credit Amount''],
      [''Wallet Currency'', ''Transaction Currency'', ''Billing currency'', ''Currency''],
      [''Employee(s)'', ''User'', ''Employee1''],
      [''Expense category'', ''Category'']]"

text \<open>\<^verbatim>\<open>list(dict.fromkeys(names))\<close>: duplicates removed, first occurrences kept in order.\<close>

definition dedupe :: "string list \<Rightarrow> string list" where
  "dedupe names = rev (remdups (rev names))"

text \<open>\<^verbatim>\<open>_nice_subset\<close>.\<close>

definition nice_subset :: "dataframe \<Rightarrow> dataframe" where
  "nice_subset d =
     (let m = map_cols d;
          names = dedupe (List.map_filter (pick_name d m) nice_candidates)
      in if names \<noteq> [] then \<lparr>columns = names, rows = map (\<lambda>r. r |` set names) (rows d)\<rparr>
         else d)"

text \<open>
  The rows that one side reports: a valid key that is not among the valid keys of the other
  side (\<^verbatim>\<open>A_only_mask\<close>, \<^verbatim>\<open>B_only_mask\<close>).
\<close>

definition valid_keys :: "dataframe \<Rightarrow> string \<Rightarrow> string list" where
  "valid_keys d col = filter valid_id (map (\<lambda>r. norm_id (cell_at r col)) (rows d))"

definition only_mask :: "string \<Rightarrow> string list \<Rightarrow> (string \<rightharpoonup> cell) \<Rightarrow> bool" where
  "only_mask col other r =
     (valid_id (norm_id (cell_at r col)) \<and> norm_id (cell_at r col) \<notin> set other)"

text \<open>
  \<^verbatim>\<open>_pair_missing\<close>; \<open>None\<close> is Python's \<^verbatim>\<open>None\<close> for a frame. The two display names
  that the function also takes are not used by it. \<^verbatim>\<open>not colA\<close> holds for \<^verbatim>\<open>None\<close>
  and for the empty string.
\<close>

definition pair_missing :: "dataframe option \<Rightarrow> dataframe option \<Rightarrow> dataframe \<times> dataframe" where
  "pair_missing A B =
     (case (A, B) of
        (Some a, Some b) \<Rightarrow>
          if df_empty a \<or> df_empty b then (empty_frame, empty_frame)
          else
            (case (pick_name a (map_cols a) tid_candidates,
                   pick_name b (map_cols b) tid_candidates) of
               (Some colA, Some colB) \<Rightarrow>
                 if colA = [] \<or> colB = [] then (empty_frame, empty_frame)
                 else
                   (let setA = valid_keys a colA;
                        setB = valid_keys b colB
                    in (nice_subset (a\<lparr>rows := filter (only_mask colA setB) (rows a)\<rparr>),
                        nice_subset (b\<lparr>rows := filter (only_mask colB setA) (rows b)\<rparr>)))
             | _ \<Rightarrow> (empty_frame, empty_frame))
      | _ \<Rightarrow> (empty_frame, empty_frame))"

section \<open>Subscriptions page\<close>





















section \<open>Example rows\<close>

text \<open>The balance-export row of the payout scenario, and the same row with a negative amount.\<close>

definition payout_example :: balance_raw where
  "payout_example =
     \<lparr>fin_type_col = Str ''payout'', time_col = Str ''2024-03-01T10:00:00Z'',
      desc_col = Str ''payout to Mr James Brook'', txn_col = Str ''t-001'',
      amount_col = Str ''$1,200.00''\<rparr>"

definition negative_payout_example :: balance_raw where
  "negative_payout_example =
     \<lparr>fin_type_col = Str ''payout'', time_col = Str ''2024-03-01T10:00:00Z'',
      desc_col = Str ''payout to Mr James Brook'', txn_col = Str ''t-002'',
      amount_col = Str ''-5.00''\<rparr>"

text \<open>
  Two frames for the missing-transaction checker. The first has a row without an id; the
  second names its id column in another letter case and has a blank id.
\<close>

definition frame_a :: dataframe where
  "frame_a =
     \<lparr>columns = [''Transaction Id'', ''Amount''],
      rows = [[''Transaction Id'' \<mapsto> Str '' A1 '', ''Amount'' \<mapsto> Str ''5''],
              [''Transaction Id'' \<mapsto> NaN, ''Amount'' \<mapsto> Str ''6''],
              [''Transaction Id'' \<mapsto> Str ''b2'', ''Amount'' \<mapsto> Str ''7'']]\<rparr>"

definition frame_b :: dataframe where
  "frame_b =
     \<lparr>columns = [''transaction id'', ''Memo''],
      rows = [[''transaction id'' \<mapsto> Str ''B2'', ''Memo'' \<mapsto> Str ''x''],
              [''transaction id'' \<mapsto> Str ''c3'', ''Memo'' \<mapsto> Str ''y''],
              [''transaction id'' \<mapsto> Str '' '', ''Memo'' \<mapsto> Str ''z'']]\<rparr>"





text \<open>A card-expense row, and a deposit: a balance row without a category.\<close>

definition expense_example :: expense_raw where
  "expense_example =
     \<lparr>timestamp_utc_col = Str ''2024-03-02 09:30:00'', employees_col = Str ''Jane Doe, John Roe'',
      transaction_id_col = Str ''c-001'', billing_amount_col = Str ''AUD 12.50'',
      expense_category_col = Str ''Travel'', expense_status_col = Str ''Complete''\<rparr>"

definition deposit_example :: balance_raw where
  "deposit_example =
     \<lparr>fin_type_col = Str ''Deposit'', time_col = Str ''2024-03-01T08:00:00Z'',
      desc_col = Str ''top up'', txn_col = Str ''t-003'', amount_col = Str ''250.00''\<rparr>"

section \<open>Facts about the text primitives\<close>

lemmas text_defs = strip_def lstrip_def rstrip_def py_lower_def py_upper_def lower_char_def
  upper_char_def title_def is_upper_az_def is_lower_az_def is_digit_def is_space_def
  is_word_def has_lower_def has_upper_def is_cased_def char_of_eq_iff

lemma lower_upper_char: "lower_char (upper_char c) = lower_char c"
  by (auto simp: lower_char_def upper_char_def has_lower_def has_upper_def Let_def)

lemma lower_lower_char: "lower_char (lower_char c) = lower_char c"
  by (auto simp: lower_char_def has_lower_def Let_def)

lemma upper_upper_char: "upper_char (upper_char c) = upper_char c"
  by (auto simp: upper_char_def has_upper_def Let_def)

lemma is_space_lower_char: "is_space (lower_char c) = is_space c"
  by (auto simp: lower_char_def has_lower_def is_space_def Let_def)

lemma is_space_upper_char: "is_space (upper_char c) = is_space c"
  by (auto simp: upper_char_def has_upper_def is_space_def Let_def)

lemma py_upper_idem: "py_upper (py_upper s) = py_upper s"
  by (simp add: py_upper_def upper_upper_char)

lemma py_lower_title_from: "py_lower (title_from b s) = py_lower s"
  by (induction s arbitrary: b) (simp_all add: py_lower_def lower_upper_char lower_lower_char)

lemma title_from_Nil_iff: "title_from b s = [] \<longleftrightarrow> s = []"
  by (cases s) auto

lemma lstrip_map: "(\<And>c. is_space (f c) = is_space c) \<Longrightarrow> lstrip (map f s) = map f (lstrip s)"
  by (simp add: lstrip_def dropWhile_map comp_def)

lemma rstrip_map: "(\<And>c. is_space (f c) = is_space c) \<Longrightarrow> rstrip (map f s) = map f (rstrip s)"
  by (simp add: rstrip_def dropWhile_map comp_def rev_map)

lemma strip_map: "(\<And>c. is_space (f c) = is_space c) \<Longrightarrow> strip (map f s) = map f (strip s)"
  by (simp add: strip_def lstrip_map rstrip_map)

lemma strip_py_lower: "strip (py_lower s) = py_lower (strip s)"
  unfolding py_lower_def by (rule strip_map) (rule is_space_lower_char)

lemma strip_py_upper: "strip (py_upper s) = py_upper (strip s)"
  unfolding py_upper_def by (rule strip_map) (rule is_space_upper_char)

lemma rstrip_prefix: "s = rstrip s @ rev (takeWhile is_space (rev s))"
  unfolding rstrip_def by (metis rev_append rev_rev_ident takeWhile_dropWhile_id)

lemma rstrip_Nil: "rstrip [] = []"
  by (simp add: rstrip_def)

lemma lstrip_id: "s = [] \<or> \<not> is_space (hd s) \<Longrightarrow> lstrip s = s"
  by (cases s) (auto simp: lstrip_def)

lemma rstrip_id: "s = [] \<or> \<not> is_space (last s) \<Longrightarrow> rstrip s = s"
  by (cases s rule: rev_cases) (auto simp: rstrip_def)

lemma lstrip_hd: "lstrip s = [] \<or> \<not> is_space (hd (lstrip s))"
  unfolding lstrip_def by (metis hd_dropWhile)

lemma rstrip_last: "rstrip s = [] \<or> \<not> is_space (last (rstrip s))"
  unfolding rstrip_def by (metis hd_dropWhile last_rev rev_is_Nil_conv)

lemma rstrip_hd: "rstrip s \<noteq> [] \<Longrightarrow> hd (rstrip s) = hd s"
  by (metis hd_append2 rstrip_prefix)

lemma strip_ends:
  "strip s = [] \<or> (\<not> is_space (hd (strip s)) \<and> \<not> is_space (last (strip s)))"
  unfolding strip_def
  using rstrip_last [of "lstrip s"] rstrip_hd [of "lstrip s"] lstrip_hd [of s]
  by (auto simp: rstrip_Nil)

lemma strip_id: "s = [] \<or> (\<not> is_space (hd s) \<and> \<not> is_space (last s)) \<Longrightarrow> strip s = s"
  by (auto simp: strip_def lstrip_id rstrip_id)

lemma strip_strip: "strip (strip s) = strip s"
  by (rule strip_id) (rule strip_ends)

lemma type_normalise_idem: "py_upper (strip (py_upper (strip s))) = py_upper (strip s)"
  by (simp add: strip_py_upper strip_strip py_upper_idem)

lemma set_strip: "set (strip s) \<subseteq> set s"
proof -
  have "set (rstrip t) \<subseteq> set t" for t
    unfolding rstrip_def using set_dropWhileD [of _ is_space "rev t"] by auto
  moreover have "set (lstrip t) \<subseteq> set t" for t
    unfolding lstrip_def using set_dropWhileD [of _ is_space t] by auto
  ultimately show ?thesis unfolding strip_def by blast
qed

section \<open>The category canonicaliser is idempotent\<close>

lemma space_not_letter: "\<not> is_lower_az (CHR '' '')"
  by (simp add: is_lower_az_def)

lemma sub_nonletters_spaced:
  "spaced (sub_nonletters b t) \<and>
   (b \<longrightarrow> sub_nonletters b t = [] \<or> hd (sub_nonletters b t) \<noteq> CHR '' '')"
proof (induction t arbitrary: b)
  case Nil
  show ?case by simp
next
  case (Cons c cs)
  show ?case using Cons [of True] Cons [of False]
    by (auto simp: space_not_letter)
qed

lemma sub_nonletters_id:
  "spaced s \<Longrightarrow> (b \<longrightarrow> s = [] \<or> hd s \<noteq> CHR '' '') \<Longrightarrow> sub_nonletters b s = s"
proof (induction s arbitrary: b)
  case Nil
  show ?case by simp
next
  case (Cons c cs)
  then show ?case by (auto simp: space_not_letter)
qed

lemma spaced_append: "spaced (xs @ ys) \<Longrightarrow> spaced xs \<and> spaced ys"
proof (induction xs)
  case Nil
  then show ?case by simp
next
  case (Cons c cs)
  then show ?case by (cases cs) auto
qed

lemma spaced_strip:
  assumes "spaced s"
  shows "spaced (strip s)"
proof -
  have "s = takeWhile is_space s @ lstrip s" by (simp add: lstrip_def)
  with assms have l: "spaced (lstrip s)" by (metis spaced_append)
  have "lstrip s = strip s @ rev (takeWhile is_space (rev (lstrip s)))"
    unfolding strip_def by (rule rstrip_prefix)
  with l show ?thesis by (metis spaced_append)
qed

lemma spaced_lower: "spaced s \<Longrightarrow> py_lower s = s"
  by (induction s) (auto simp: py_lower_def lower_char_def is_lower_az_def has_lower_def)

lemma spaced_canon_key: "spaced (canon_key v)"
  unfolding canon_key_def by (rule spaced_strip) (simp add: sub_nonletters_spaced)

text \<open>The cleaned key of a title-cased cleaned key is the cleaned key itself.\<close>

lemma canon_key_title: "canon_key (title (canon_key v)) = canon_key v"
proof -
  let ?k = "canon_key v"
  have sp: "spaced ?k" by (rule spaced_canon_key)
  have st: "strip ?k = ?k" by (simp add: canon_key_def strip_strip)
  have "py_lower (strip (title ?k)) = strip (py_lower (title ?k))"
    by (simp add: strip_py_lower)
  also have "\<dots> = strip (py_lower ?k)" by (simp add: title_def py_lower_title_from)
  also have "\<dots> = ?k" using sp st by (simp add: spaced_lower)
  finally have low: "py_lower (strip (title ?k)) = ?k" .
  have "canon_key (title ?k) = strip (sub_nonletters False ?k)"
    by (simp add: canon_key_def [of "title ?k"] low)
  also have "\<dots> = strip ?k" using sp by (simp add: sub_nonletters_id)
  finally show ?thesis using st by simp
qed

lemma canon_key_consts:
  "canon_key ''Tech'' = ''tech''" "canon_key ''Marketing'' = ''marketing''"
  "canon_key ''Green'' = ''green''" "canon_key ''Others'' = ''others''"
  by (simp_all add: canon_key_def text_defs)

lemma canon_type_consts:
  "canon_type ''Tech'' = ''Tech''" "canon_type ''Marketing'' = ''Marketing''"
  "canon_type ''Green'' = ''Green''" "canon_type ''Others'' = ''Others''"
  by (simp_all add: canon_type_def canon_key_consts TYPE_CANON_DICT_def)

lemma canon_dict_range:
  "map_of TYPE_CANON_DICT s = Some v \<Longrightarrow> v \<in> {''Tech'', ''Marketing'', ''Green'', ''Others''}"
  by (auto simp: TYPE_CANON_DICT_def split: if_splits)

lemma canon_type_cases:
  obtains (const) "canon_type v \<in> {''Tech'', ''Marketing'', ''Green'', ''Others''}"
  | (adhoc) "canon_type v = title (canon_key v)" "canon_key v \<noteq> []"
      "map_of TYPE_CANON_DICT (canon_key v) = None"
      "\<not> (startswith ''tech'' (canon_key v) \<or> contains ''technolog'' (canon_key v))"
      "\<not> contains ''market'' (canon_key v)"
      "\<not> (contains ''green'' (canon_key v) \<or> contains ''sustain'' (canon_key v))"
      "\<not> contains ''other'' (canon_key v)"
proof (cases "map_of TYPE_CANON_DICT (canon_key v)")
  case None
  show ?thesis
  proof (cases "canon_type v \<in> {''Tech'', ''Marketing'', ''Green'', ''Others''}")
    case True
    then show ?thesis by (rule const)
  next
    case False
    with None show ?thesis
      by (intro adhoc) (auto simp: canon_type_def Let_def split: if_splits)
  qed
next
  case (Some r)
  then have "canon_type v = r" by (simp add: canon_type_def Let_def)
  with Some have "canon_type v \<in> {''Tech'', ''Marketing'', ''Green'', ''Others''}"
    using canon_dict_range [of "canon_key v" r] by simp
  then show ?thesis by (rule const)
qed

lemma letter_lower_char: "is_lower_az (lower_char c) \<longleftrightarrow> is_lower_az c \<or> is_upper_az c"
  by (auto simp: lower_char_def is_lower_az_def is_upper_az_def has_lower_def Let_def)

lemma sub_nonletters_no_letter:
  "(\<And>c. c \<in> set t \<Longrightarrow> \<not> is_lower_az c) \<Longrightarrow>
   sub_nonletters True t = [] \<and> (sub_nonletters False t = [] \<or> sub_nonletters False t = '' '')"
  by (induction t) auto

lemma canon_key_no_letter:
  assumes "\<And>c. c \<in> set s \<Longrightarrow> \<not> is_lower_az c \<and> \<not> is_upper_az c"
  shows "canon_key s = []"
proof -
  have "\<not> is_lower_az c" if "c \<in> set (py_lower (strip s))" for c
    using that assms set_strip [of s] by (auto simp: py_lower_def letter_lower_char)
  then have "sub_nonletters False (py_lower (strip s)) = [] \<or>
             sub_nonletters False (py_lower (strip s)) = '' ''"
    using sub_nonletters_no_letter [of "py_lower (strip s)"] by blast
  moreover have "strip '' '' = []" by (simp add: text_defs)
  moreover have "strip [] = []" by (simp add: text_defs)
  ultimately show ?thesis unfolding canon_key_def by auto
qed

lemma canon_type_no_letter:
  assumes "\<And>c. c \<in> set s \<Longrightarrow> \<not> is_lower_az c \<and> \<not> is_upper_az c"
  shows "canon_type s = ''Others''"
  using canon_key_no_letter [OF assms] by (simp add: canon_type_def TYPE_CANON_DICT_def)

text \<open>
  Claim C10. For every input string \<open>s\<close>, canonicalising the canonical label again gives the
  same label, and the label is never the empty string; an input without any letter, the
  empty input among them, gives \<^verbatim>\<open>Others\<close>.
\<close>

theorem canon_type_idempotent:
  "canon_type (canon_type s) = canon_type s \<and> canon_type s \<noteq> [] \<and>
   ((\<forall>c \<in> set s. \<not> is_lower_az c \<and> \<not> is_upper_az c) \<longrightarrow> canon_type s = ''Others'')"
proof -
  have idem: "canon_type (canon_type s) = canon_type s \<and> canon_type s \<noteq> []"
  proof (cases s rule: canon_type_cases)
    case const
    then show ?thesis using canon_type_consts by auto
  next
    case adhoc
    have "canon_type (title (canon_key s)) = title (canon_key s)"
      using adhoc(2-)
      by (simp add: canon_type_def [of "title (canon_key s)"] canon_key_title Let_def)
    moreover have "title (canon_key s) \<noteq> []"
      using adhoc(2) by (simp add: title_def title_from_Nil_iff)
    ultimately show ?thesis using adhoc(1) by simp
  qed
  with canon_type_no_letter [of s] show ?thesis by blast
qed

theorem canon_type_idempotent_witness:
  "list_all (\<lambda>c. \<not> is_lower_az c \<and> \<not> is_upper_az c) ''12 & 7'' \<and>
   canon_type ''12 & 7'' = ''Others'' \<and>
   canon_type (canon_type ''12 & 7'') = canon_type ''12 & 7''"
proof -
  have l: "list_all (\<lambda>c. \<not> is_lower_az c \<and> \<not> is_upper_az c) ''12 & 7''"
    by (simp add: is_lower_az_def is_upper_az_def)
  then have h: "\<forall>c \<in> set ''12 & 7''. \<not> is_lower_az c \<and> \<not> is_upper_az c"
    by (simp only: list_all_iff)
  note t = canon_type_idempotent [of "''12 & 7''"]
  from t have "canon_type (canon_type ''12 & 7'') = canon_type ''12 & 7''"
    by (rule conjunct1)
  moreover from t h have "canon_type ''12 & 7'' = ''Others''"
    by (elim conjE impE) assumption+
  ultimately show ?thesis using l by (intro conjI)
qed

section \<open>The unifier\<close>

lemma type_upper_rederive: "type_upper (rederive r) = type_upper r"
  by (simp add: rederive_def type_upper_def type_normalise_idem)

lemma py_upper_type_upper: "py_upper (type_upper r) = type_upper r"
  by (simp add: type_upper_def py_upper_idem)

text \<open>
  Claim C5. Every row of the step's result whose type is \<^verbatim>\<open>ADJUSTMENT\<close> has the user
  \<^verbatim>\<open>Adjustments\<close> and the category \<^verbatim>\<open>Air wallex Expense\<close>, whatever employee and
  expense category the row carried.
\<close>

theorem adjustment_override:
  "Type (rederive r) = ''ADJUSTMENT'' \<Longrightarrow>
   User (rederive r) = ''Adjustments'' \<and> Category (rederive r) = Str ''Air wallex Expense''"
proof -
  assume "Type (rederive r) = ''ADJUSTMENT''"
  then have ty: "type_upper r = ''ADJUSTMENT''" by (simp add: rederive_def)
  then have adj: "adj_mask r" unfolding adj_mask_def py_upper_type_upper .
  from ty have card: "\<not> card_mask r" by (simp add: card_mask_def)
  from adj card show ?thesis
    by (simp add: rederive_def User_224_def Category_239_def incomplete_mask_def
        Category_228_def Category_225_def)
qed

theorem adjustment_override_witness:
  "Type (rederive \<lparr>Time = None, Date = None, Month = None, Year = ''<NA>'',
       Employee = Str ''Finance Team'', Transaction_Id = Str ''a1'', Amount = 10,
       Expense_category = Str ''Travel'', Expense_status = NaN, Type = '' adjustment'',
       Debit_Net_Amount = 10, Credit_Net_Amount = 0\<rparr>) = ''ADJUSTMENT'' \<and>
   User (rederive \<lparr>Time = None, Date = None, Month = None, Year = ''<NA>'',
       Employee = Str ''Finance Team'', Transaction_Id = Str ''a1'', Amount = 10,
       Expense_category = Str ''Travel'', Expense_status = NaN, Type = '' adjustment'',
       Debit_Net_Amount = 10, Credit_Net_Amount = 0\<rparr>) = ''Adjustments'' \<and>
   Category (rederive \<lparr>Time = None, Date = None, Month = None, Year = ''<NA>'',
       Employee = Str ''Finance Team'', Transaction_Id = Str ''a1'', Amount = 10,
       Expense_category = Str ''Travel'', Expense_status = NaN, Type = '' adjustment'',
       Debit_Net_Amount = 10, Credit_Net_Amount = 0\<rparr>) = Str ''Air wallex Expense''"
proof -
  let ?r = "\<lparr>Time = None, Date = None, Month = None, Year = ''<NA>'',
       Employee = Str ''Finance Team'', Transaction_Id = Str ''a1'', Amount = 10,
       Expense_category = Str ''Travel'', Expense_status = NaN, Type = '' adjustment'',
       Debit_Net_Amount = 10, Credit_Net_Amount = 0\<rparr>"
  have ty: "Type (rederive ?r) = ''ADJUSTMENT''"
    by (simp add: rederive_def type_upper_def text_defs)
  from adjustment_override [OF ty] ty show ?thesis by simp
qed

text \<open>
  Claim C6. A row of type \<^verbatim>\<open>CARD\<close> whose category is missing (its stripped expense
  category is empty, \<^verbatim>\<open>nan\<close> or \<^verbatim>\<open>None\<close>) and whose expense status, stripped and
  lowered, is \<^verbatim>\<open>incomplete\<close> gets the category \<^verbatim>\<open>Incomplete\<close>; every other row keeps
  the category it had before the rule.
\<close>

theorem incomplete_rule:
  "(type_upper r = ''CARD'' \<and>
    strip (astype_str (Expense_category r)) \<in> {'''', ''nan'', ''None''} \<and>
    py_lower (strip (astype_str (Expense_status r))) = ''incomplete''
      \<longrightarrow> Category (rederive r) = Str ''Incomplete'') \<and>
   (\<not> (type_upper r = ''CARD'' \<and>
       strip (astype_str (Expense_category r)) \<in> {'''', ''nan'', ''None''} \<and>
       py_lower (strip (astype_str (Expense_status r))) = ''incomplete'')
      \<longrightarrow> Category (rederive r) = Category_228 r)"
  by (auto simp: rederive_def Category_239_def incomplete_mask_def Category_228_def
      card_mask_def replace_blank_def)

theorem incomplete_rule_witness:
  "Category (rederive (expense_row Map.empty
      \<lparr>timestamp_utc_col = NaN, employees_col = Str ''Jane Doe, John Roe'',
       transaction_id_col = Str ''c1'', billing_amount_col = Str ''12.50'',
       expense_category_col = NaN, expense_status_col = Str ''Incomplete''\<rparr>))
     = Str ''Incomplete'' \<and>
   Category (rederive (expense_row Map.empty
      \<lparr>timestamp_utc_col = NaN, employees_col = Str ''Jane Doe, John Roe'',
       transaction_id_col = Str ''c2'', billing_amount_col = Str ''12.50'',
       expense_category_col = Str ''Travel'', expense_status_col = Str ''Incomplete''\<rparr>))
     = Str ''Travel''"
proof -
  let ?e1 = "\<lparr>timestamp_utc_col = NaN, employees_col = Str ''Jane Doe, John Roe'',
       transaction_id_col = Str ''c1'', billing_amount_col = Str ''12.50'',
       expense_category_col = NaN, expense_status_col = Str ''Incomplete''\<rparr>"
  let ?e2 = "\<lparr>timestamp_utc_col = NaN, employees_col = Str ''Jane Doe, John Roe'',
       transaction_id_col = Str ''c2'', billing_amount_col = Str ''12.50'',
       expense_category_col = Str ''Travel'', expense_status_col = Str ''Incomplete''\<rparr>"
  have a: "type_upper (expense_row Map.empty ?e1) = ''CARD'' \<and>
      strip (astype_str (Expense_category (expense_row Map.empty ?e1)))
        \<in> {'''', ''nan'', ''None''} \<and>
      py_lower (strip (astype_str (Expense_status (expense_row Map.empty ?e1)))) = ''incomplete''"
    by (simp add: expense_row_def type_upper_def text_defs Let_def)
  have b: "\<not> (type_upper (expense_row Map.empty ?e2) = ''CARD'' \<and>
      strip (astype_str (Expense_category (expense_row Map.empty ?e2)))
        \<in> {'''', ''nan'', ''None''} \<and>
      py_lower (strip (astype_str (Expense_status (expense_row Map.empty ?e2)))) = ''incomplete'')"
    by (simp add: expense_row_def type_upper_def text_defs Let_def)
  have c: "Category_228 (expense_row Map.empty ?e2) = Str ''Travel''"
    by (simp add: expense_row_def Category_228_def card_mask_def type_upper_def
        replace_blank_def text_defs Let_def)
  from incomplete_rule [of "expense_row Map.empty ?e1"] a
  have "Category (rederive (expense_row Map.empty ?e1)) = Str ''Incomplete''" by blast
  moreover from incomplete_rule [of "expense_row Map.empty ?e2"] b c
  have "Category (rederive (expense_row Map.empty ?e2)) = Str ''Travel''" by metis
  ultimately show ?thesis by (intro conjI)
qed

subsection \<open>The step is a fixed point on the unified table\<close>

lemma masks_rederive:
  "adj_mask (rederive r) = adj_mask r" "card_mask (rederive r) = card_mask r"
  "t_upper (rederive r) = t_upper r"
  by (simp_all add: adj_mask_def card_mask_def t_upper_def type_upper_rederive)

lemma fields_rederive:
  "Employee (rederive r) = Employee r" "Expense_category (rederive r) = Expense_category r"
  "Expense_status (rederive r) = Expense_status r" "Amount (rederive r) = Amount r"
  "Time (rederive r) = Time r" "Date (rederive r) = Date r"
  "Transaction_Id (rederive r) = Transaction_Id r"
  "Debit_Net_Amount (rederive r) = Debit_262 r" "Credit_Net_Amount (rederive r) = Credit_263 r"
  by (simp_all add: rederive_def)

lemma user_category_rederive:
  "User_224 (rederive r) = User_224 r" "Category_239 (rederive r) = Category_239 r"
  by (simp_all add: User_224_def User_220_def Category_239_def incomplete_mask_def
      Category_228_def Category_225_def Category_221_def masks_rederive fields_rederive)

lemma debit_credit_rederive:
  "Debit_262 (rederive r) = Debit_262 r" "Credit_263 (rederive r) = Credit_263 r"
  by (auto simp: Debit_262_def [of "rederive r"] Credit_263_def [of "rederive r"]
      missing_mask_def [of "rederive r"] masks_rederive fields_rederive
      Debit_262_def [of r] Credit_263_def [of r] missing_mask_def [of r]
      debit_types_def credit_types_def)

text \<open>
  A second run changes nothing but possibly \<^verbatim>\<open>Final_Amount\<close>, which is copied from the debit
  column before the fallback of lines 259 to 263: the step is a fixed point on every row
  whose debit the fallback leaves alone.
\<close>

lemma rederive_fixed:
  assumes "Debit_262 r = Debit_Net_Amount r"
  shows "rederive (rederive r) = rederive r"
  unfolding rederive_def [of "rederive r"]
  by (simp add: type_upper_rederive user_category_rederive debit_credit_rederive
      fields_rederive assms)
    (simp add: rederive_def assms)

subsection \<open>Rows that the two exports produce\<close>

lemma expense_row_fields:
  "type_upper (expense_row td e) = ''CARD''"
  "Amount (expense_row td e) = clean_amount (billing_amount_col e)"
  "Debit_Net_Amount (expense_row td e) = clean_amount (billing_amount_col e)"
  "Credit_Net_Amount (expense_row td e) = 0"
  by (simp_all add: expense_row_def Let_def type_upper_def text_defs)

lemma ft_normal: "py_upper (strip (ft b)) = ft b"
  by (simp add: ft_def type_normalise_idem)

lemma balance_row_fields:
  "type_upper (balance_row td b) = ft b"
  "Amount (balance_row td b) = clean_amount (amount_col b)"
  "Debit_Net_Amount (balance_row td b) =
     (if ft b = ''PAYOUT'' \<or> ft b = ''ADJUSTMENT'' then clean_amount (amount_col b) else 0)"
  "Credit_Net_Amount (balance_row td b) =
     (if ft b = ''DEPOSIT'' \<or> ft b = ''CARD_REFUND'' then clean_amount (amount_col b) else 0)"
  by (simp_all add: balance_row_def Let_def type_upper_def ft_normal)

lemma mask_cases:
  "mask b \<longleftrightarrow> ft b = ''DEPOSIT'' \<or> ft b = ''CARD_REFUND'' \<or> ft b = ''PAYOUT'' \<or> ft b = ''ADJUSTMENT''"
  by (simp add: mask_def)

text \<open>
  On a row of either export one of the two net amounts is the amount and the other is zero,
  and the fallback of lines 259 to 263 leaves both as they are.
\<close>

lemma expense_debit_credit:
  "Debit_262 (expense_row td e) = Amount (expense_row td e)"
  "Credit_263 (expense_row td e) = 0"
  by (auto simp: Debit_262_def Credit_263_def missing_mask_def t_upper_def expense_row_fields
      credit_types_def debit_types_def text_defs)

lemma t_upper_balance_row: "t_upper (balance_row td b) = ft b"
  unfolding t_upper_def balance_row_fields
  by (metis ft_def py_upper_idem)

lemma balance_debit_credit:
  assumes "mask b"
  shows "Debit_262 (balance_row td b) = Debit_Net_Amount (balance_row td b)"
    and "Credit_263 (balance_row td b) = Credit_Net_Amount (balance_row td b)"
  using assms
  by (auto simp: Debit_262_def Credit_263_def missing_mask_def t_upper_balance_row
      balance_row_fields mask_cases credit_types_def debit_types_def)

text \<open>
  The frame that \<^verbatim>\<open>pd.concat\<close> returns has the rows of the two frames in order; a balance
  row may have its missing category cell replaced. Nothing below depends on that cell.
\<close>

lemma category_update:
  "type_upper (r\<lparr>Expense_category := c\<rparr>) = type_upper r"
  "t_upper (r\<lparr>Expense_category := c\<rparr>) = t_upper r"
  "Debit_262 (r\<lparr>Expense_category := c\<rparr>) = Debit_262 r"
  "Credit_263 (r\<lparr>Expense_category := c\<rparr>) = Credit_263 r"
  by (simp_all add: type_upper_def t_upper_def Debit_262_def Credit_263_def missing_mask_def)

lemma rederive_category_update:
  "Amount (rederive (r\<lparr>Expense_category := c\<rparr>)) = Amount (rederive r)"
  "Debit_Net_Amount (rederive (r\<lparr>Expense_category := c\<rparr>)) = Debit_Net_Amount (rederive r)"
  "Credit_Net_Amount (rederive (r\<lparr>Expense_category := c\<rparr>)) = Credit_Net_Amount (rederive r)"
  "Type (rederive (r\<lparr>Expense_category := c\<rparr>)) = Type (rederive r)"
  by (simp_all add: fields_rederive category_update) (simp add: rederive_def category_update)

lemma map_concat_all_na:
  "(\<And>r. g (r\<lparr>Expense_category := NaN\<rparr>) = g r) \<Longrightarrow> map g (concat_all_na frame) = map g frame"
  by (simp add: concat_all_na_def)

lemma set_concat_all_na:
  "x \<in> set (concat_all_na frame) \<Longrightarrow> \<exists>r \<in> set frame. \<exists>c. x = r\<lparr>Expense_category := c\<rparr>"
proof (cases "concat_all_na frame = frame")
  case True
  assume "x \<in> set (concat_all_na frame)"
  with True have "x \<in> set frame" by simp
  moreover have "x = x\<lparr>Expense_category := Expense_category x\<rparr>" by simp
  ultimately show ?thesis by blast
next
  case False
  assume "x \<in> set (concat_all_na frame)"
  with False show ?thesis by (auto simp: concat_all_na_def split: if_splits)
qed

lemma unified_rows:
  assumes "r \<in> set (unified td es bs)"
  obtains (card) e where "e \<in> set es" "r = rederive (expense_row td e)"
  | (bal) b c where "b \<in> set bs" "mask b"
      "r = rederive ((balance_row td b)\<lparr>Expense_category := c\<rparr>)"
proof -
  from assms have "r \<in> rederive ` set (expense_filtered td es) \<or>
      r \<in> rederive ` set (concat_all_na (balance_filtered td bs))"
    by (auto simp: unified_def final_dataframe_def)
  then show ?thesis
  proof
    assume "r \<in> rederive ` set (expense_filtered td es)"
    then show ?thesis by (auto simp: expense_filtered_def intro: card)
  next
    assume "r \<in> rederive ` set (concat_all_na (balance_filtered td bs))"
    then obtain x where x: "x \<in> set (concat_all_na (balance_filtered td bs))" "r = rederive x"
      by blast
    from set_concat_all_na [OF x(1)] obtain y c where
      "y \<in> set (balance_filtered td bs)" "x = y\<lparr>Expense_category := c\<rparr>" by blast
    with x(2) show ?thesis by (auto simp: balance_filtered_def intro: bal)
  qed
qed

text \<open>
  Claim C9. Running the re-derivation step on the unified table that the page has built
  returns the same table.
\<close>

theorem rederive_idempotent:
  "map rederive (unified to_datetime expense_file balance_file) =
   unified to_datetime expense_file balance_file"
proof -
  have "rederive r = r" if "r \<in> set (unified to_datetime expense_file balance_file)" for r
    using that
  proof (cases rule: unified_rows)
    case (card e)
    then show ?thesis
      by (simp add: rederive_fixed expense_debit_credit expense_row_fields)
  next
    case (bal b c)
    have "Debit_262 ((balance_row to_datetime b)\<lparr>Expense_category := c\<rparr>) =
          Debit_Net_Amount ((balance_row to_datetime b)\<lparr>Expense_category := c\<rparr>)"
      using bal(2) by (simp add: category_update balance_debit_credit)
    with bal(3) show ?thesis by (simp add: rederive_fixed)
  qed
  then show ?thesis by (simp add: map_idI)
qed

lemma length_concat_all_na: "length (concat_all_na frame) = length frame"
  by (simp add: concat_all_na_def)

theorem rederive_idempotent_witness:
  "map rederive (unified Map.empty
      [\<lparr>timestamp_utc_col = NaN, employees_col = Str ''Jane Doe'',
        transaction_id_col = Str ''c1'', billing_amount_col = Str ''0'',
        expense_category_col = NaN, expense_status_col = Str ''Incomplete''\<rparr>]
      [\<lparr>fin_type_col = Str ''deposit'', time_col = NaN, desc_col = Str ''top up'',
        txn_col = Str ''d1'', amount_col = Str ''250.00''\<rparr>]) =
   unified Map.empty
      [\<lparr>timestamp_utc_col = NaN, employees_col = Str ''Jane Doe'',
        transaction_id_col = Str ''c1'', billing_amount_col = Str ''0'',
        expense_category_col = NaN, expense_status_col = Str ''Incomplete''\<rparr>]
      [\<lparr>fin_type_col = Str ''deposit'', time_col = NaN, desc_col = Str ''top up'',
        txn_col = Str ''d1'', amount_col = Str ''250.00''\<rparr>] \<and>
   length (unified Map.empty
      [\<lparr>timestamp_utc_col = NaN, employees_col = Str ''Jane Doe'',
        transaction_id_col = Str ''c1'', billing_amount_col = Str ''0'',
        expense_category_col = NaN, expense_status_col = Str ''Incomplete''\<rparr>]
      [\<lparr>fin_type_col = Str ''deposit'', time_col = NaN, desc_col = Str ''top up'',
        txn_col = Str ''d1'', amount_col = Str ''250.00''\<rparr>]) = 2"
proof -
  have "mask \<lparr>fin_type_col = Str ''deposit'', time_col = NaN, desc_col = Str ''top up'',
        txn_col = Str ''d1'', amount_col = Str ''250.00''\<rparr>"
    by (simp add: mask_def ft_def text_defs)
  then show ?thesis
    using rederive_idempotent [of Map.empty
      "[\<lparr>timestamp_utc_col = NaN, employees_col = Str ''Jane Doe'',
        transaction_id_col = Str ''c1'', billing_amount_col = Str ''0'',
        expense_category_col = NaN, expense_status_col = Str ''Incomplete''\<rparr>]"
      "[\<lparr>fin_type_col = Str ''deposit'', time_col = NaN, desc_col = Str ''top up'',
        txn_col = Str ''d1'', amount_col = Str ''250.00''\<rparr>]"]
    by (simp add: unified_def final_dataframe_def expense_filtered_def balance_filtered_def
        length_concat_all_na)
qed

text \<open>
  Outside the tables that the page builds the step need not be a fixed point: on a row with
  both net amounts zero and a non-zero amount the first run fills the debit and leaves
  \<^verbatim>\<open>Final_Amount\<close> at zero, the second run copies the filled debit.
\<close>

lemma rederive_twice_example:
  "Final_Amount (rederive \<lparr>Time = None, Date = None, Month = None, Year = ''<NA>'',
       Employee = NaN, Transaction_Id = NaN, Amount = 7, Expense_category = NaN,
       Expense_status = NaN, Type = ''CARD'', Debit_Net_Amount = 0,
       Credit_Net_Amount = 0\<rparr>) = 0 \<and>
   Final_Amount (rederive (rederive \<lparr>Time = None, Date = None, Month = None, Year = ''<NA>'',
       Employee = NaN, Transaction_Id = NaN, Amount = 7, Expense_category = NaN,
       Expense_status = NaN, Type = ''CARD'', Debit_Net_Amount = 0,
       Credit_Net_Amount = 0\<rparr>)) = 7"
  by (simp add: rederive_def Debit_262_def missing_mask_def t_upper_def type_upper_def
      debit_types_def text_defs)

section \<open>Signs of the amounts\<close>

lemma unsigned_decimal_nonneg: "unsigned_decimal s = Some v \<Longrightarrow> 0 \<le> v"
  by (auto simp: unsigned_decimal_def Let_def split: list.splits if_splits)

lemma unsigned_decimal_no_minus: "unsigned_decimal (CHR ''-'' # s) = None"
  by (simp add: unsigned_decimal_def is_digit_def)

lemma decimal_literal_negative:
  "decimal_literal s = Some v \<Longrightarrow> v < 0 \<Longrightarrow> startswith ''-'' s"
  using unsigned_decimal_nonneg
  by (cases s) (fastforce simp: decimal_literal_def split: if_splits)+

lemma clean_amount_negative:
  "clean_amount c < 0 \<Longrightarrow> startswith ''-'' (keep_numeric_chars (astype_str c))"
  using decimal_literal_negative [of "keep_numeric_chars (astype_str c)"]
  by (auto simp: clean_amount_def fillna0_def split: option.splits)

lemma startswith_minus_mem: "startswith ''-'' s \<Longrightarrow> CHR ''-'' \<in> set s"
  by (cases s) auto

lemma clean_amount_nonneg:
  assumes "CHR ''-'' \<notin> set (astype_str c)"
  shows "0 \<le> clean_amount c"
proof (rule ccontr)
  assume "\<not> 0 \<le> clean_amount c"
  then have "startswith ''-'' (keep_numeric_chars (astype_str c))"
    using clean_amount_negative [of c] by simp
  then have "CHR ''-'' \<in> set (keep_numeric_chars (astype_str c))"
    by (rule startswith_minus_mem)
  with assms show False by (simp add: keep_numeric_chars_def)
qed

lemma clean_amount_examples:
  "clean_amount (Str ''$1,200.00'') = 1200" "clean_amount (Str ''-5.00'') = - 5"
  "clean_amount (Str ''AUD 12.50'') = 25 / 2" "clean_amount NaN = 0"
  by (simp_all add: clean_amount_def keep_numeric_chars_def decimal_literal_def
      unsigned_decimal_def digits_value_def digit_value_def fillna0_def is_digit_def)

text \<open>The amount column of the unified table, row by row, from the cells of the two exports.\<close>

lemma unified_amounts:
  "map Amount (unified td es bs) =
   map clean_amount (map billing_amount_col es @ map amount_col (filter mask bs))"
proof -
  have "map (\<lambda>r. Amount (rederive r)) (concat_all_na (balance_filtered td bs)) =
        map (\<lambda>r. Amount (rederive r)) (balance_filtered td bs)"
    by (rule map_concat_all_na) (rule rederive_category_update)
  then show ?thesis
    by (simp add: unified_def final_dataframe_def expense_filtered_def balance_filtered_def
        fields_rederive expense_row_fields balance_row_fields comp_def)
qed

text \<open>
  Claim C3, as the code has it. The rows of the unified table are, in order, the rows of the
  expenses export and the kept rows of the balance export. The amount of each row is the
  signed value of the characters that the cleaning keeps of the row's own amount cell, zero
  when they do not parse: it is not negative when that cell holds no \<^verbatim>\<open>-\<close>, and it is
  negative only when the kept text begins with \<^verbatim>\<open>-\<close>.
\<close>

theorem amount_signed:
  "list_all2
     (\<lambda>r c. Amount r = clean_amount c \<and>
             (CHR ''-'' \<notin> set (astype_str c) \<longrightarrow> 0 \<le> Amount r) \<and>
             (Amount r < 0 \<longrightarrow> startswith ''-'' (keep_numeric_chars (astype_str c))))
     (unified to_datetime expense_file balance_file)
     (map billing_amount_col expense_file @ map amount_col (filter mask balance_file))"
proof -
  let ?rows = "unified to_datetime expense_file balance_file"
  let ?cells = "map billing_amount_col expense_file @ map amount_col (filter mask balance_file)"
  have eq: "map Amount ?rows = map clean_amount ?cells" by (rule unified_amounts)
  then have len: "length ?rows = length ?cells" by (rule map_eq_imp_length_eq)
  have "Amount (?rows ! i) = clean_amount (?cells ! i)" if "i < length ?rows" for i
  proof -
    have "Amount (?rows ! i) = map Amount ?rows ! i" using that by simp
    also have "\<dots> = map clean_amount ?cells ! i" by (simp only: eq)
    also have "\<dots> = clean_amount (?cells ! i)"
    proof (rule nth_map)
      show "i < length ?cells" using that len by simp
    qed
    finally show ?thesis .
  qed
  then show ?thesis
    using len clean_amount_nonneg clean_amount_negative
    by (simp add: list_all2_conv_all_nth)
qed

section \<open>The payout scenario\<close>

lemma payout_example_fields:
  "mask payout_example" "ft payout_example = ''PAYOUT''"
  "clean_amount (amount_col payout_example) = 1200"
  "Employee_of (desc_col payout_example) = Str ''Mr James Brook''"
  by (simp_all add: payout_example_def mask_def ft_def clean_amount_examples Employee_of_def
      extract_to_def is_delim_def text_defs)

lemma negative_payout_example_fields:
  "mask negative_payout_example" "ft negative_payout_example = ''PAYOUT''"
  "clean_amount (amount_col negative_payout_example) = - 5"
  by (simp_all add: negative_payout_example_def mask_def ft_def text_defs clean_amount_def
      keep_numeric_chars_def decimal_literal_def unsigned_decimal_def digits_value_def
      digit_value_def fillna0_def)

lemma unified_single_payout:
  assumes "mask b" "ft b = ''PAYOUT''"
  shows "unified td [] [b] = [rederive (balance_row td b)]"
proof -
  have "Expense_category (balance_row td b) = Str ''Transfers''"
    using assms(2) by (simp add: balance_row_def Let_def balance_category_def)
  then have "concat_all_na [balance_row td b] = [balance_row td b]"
    by (simp add: concat_all_na_def)
  with assms(1) show ?thesis
    by (simp add: unified_def final_dataframe_def expense_filtered_def balance_filtered_def)
qed

lemma payout_unified_row:
  "Type (rederive (balance_row td payout_example)) = ''PAYOUT''"
  "Debit_Net_Amount (rederive (balance_row td payout_example)) = 1200"
  "Credit_Net_Amount (rederive (balance_row td payout_example)) = 0"
  "Amount (rederive (balance_row td payout_example)) = 1200"
  "User (rederive (balance_row td payout_example)) = ''Mr James Brook''"
  "Category (rederive (balance_row td payout_example)) = Str ''Transfers''"
proof -
  let ?r = "balance_row td payout_example"
  have ty: "type_upper ?r = ''PAYOUT''"
    by (simp add: balance_row_fields payout_example_fields)
  show "Type (rederive ?r) = ''PAYOUT''" using ty by (simp add: rederive_def)
  show "Debit_Net_Amount (rederive ?r) = 1200"
    by (simp add: fields_rederive balance_debit_credit balance_row_fields payout_example_fields)
  show "Credit_Net_Amount (rederive ?r) = 0"
    by (simp add: fields_rederive balance_debit_credit balance_row_fields payout_example_fields)
  show "Amount (rederive ?r) = 1200"
    by (simp add: fields_rederive balance_row_fields payout_example_fields)
  have emp: "Employee ?r = Str ''Mr James Brook''"
    by (simp add: balance_row_def Let_def payout_example_fields)
  have cat: "Expense_category ?r = Str ''Transfers''"
    by (simp add: balance_row_def Let_def payout_example_fields balance_category_def)
  have adj: "\<not> adj_mask ?r" "\<not> card_mask ?r"
    using ty by (simp_all add: adj_mask_def card_mask_def text_defs)
  show "User (rederive ?r) = ''Mr James Brook''"
    using adj emp by (simp add: rederive_def User_224_def User_220_def replace_nbsp_def text_defs)
  show "Category (rederive ?r) = Str ''Transfers''"
    using adj cat
    by (simp add: rederive_def Category_239_def incomplete_mask_def Category_228_def
        Category_225_def Category_221_def text_defs)
qed

text \<open>
  Claim C2, evaluated. The payout row gives one unified row of type \<^verbatim>\<open>PAYOUT\<close> with debit
  1200, credit 0 and category \<^verbatim>\<open>Transfers\<close>; its user is \<^verbatim>\<open>Mr James Brook\<close>, the whole
  text after \<^verbatim>\<open>to\<close>, not \<^verbatim>\<open>James Brook\<close>.
\<close>

theorem payout_scenario:
  "map (\<lambda>r. (Type r, Debit_Net_Amount r, Credit_Net_Amount r, User r, Category r))
     (unified to_datetime [] [payout_example]) =
   [(''PAYOUT'', 1200, 0, ''Mr James Brook'', Str ''Transfers'')]"
  by (simp add: unified_single_payout payout_example_fields payout_unified_row)

section \<open>Debit and credit of a unified row\<close>

lemma negative_unified_row:
  "Amount (rederive (balance_row td negative_payout_example)) = - 5"
  "Debit_Net_Amount (rederive (balance_row td negative_payout_example)) = - 5"
  "Credit_Net_Amount (rederive (balance_row td negative_payout_example)) = 0"
  by (simp_all add: fields_rederive balance_debit_credit balance_row_fields
      negative_payout_example_fields)

text \<open>
  Claim C1 as stated fails: the payout row with the amount \<^verbatim>\<open>-5.00\<close> has the debit \<open>-5\<close>
  and the credit \<open>0\<close>; neither is positive and they are not both zero.
\<close>

theorem debit_credit_counterexample:
  "unified Map.empty [] [negative_payout_example] =
     [rederive (balance_row Map.empty negative_payout_example)] \<and>
   Debit_Net_Amount (rederive (balance_row Map.empty negative_payout_example)) = - 5 \<and>
   Credit_Net_Amount (rederive (balance_row Map.empty negative_payout_example)) = 0 \<and>
   \<not> (\<forall>r \<in> set (unified Map.empty [] [negative_payout_example]).
        ((0 < Debit_Net_Amount r) \<noteq> (0 < Credit_Net_Amount r)) \<or>
        (Debit_Net_Amount r = 0 \<and> Credit_Net_Amount r = 0))"
  by (simp add: unified_single_payout negative_payout_example_fields negative_unified_row)

text \<open>
  Claim C1, as the code has it. In every row of the unified table one of the two net amounts
  is the amount and the other is zero. So the two are never both positive; exactly one is
  positive when the amount is positive, both are zero when the amount is zero, and neither
  is positive when the amount is negative.
\<close>

theorem debit_credit_exclusive:
  assumes "r \<in> set (unified to_datetime expense_file balance_file)"
  shows "((Debit_Net_Amount r = Amount r \<and> Credit_Net_Amount r = 0) \<or>
          (Debit_Net_Amount r = 0 \<and> Credit_Net_Amount r = Amount r)) \<and>
         \<not> (0 < Debit_Net_Amount r \<and> 0 < Credit_Net_Amount r) \<and>
         (0 < Amount r \<longrightarrow> (0 < Debit_Net_Amount r) \<noteq> (0 < Credit_Net_Amount r)) \<and>
         (Amount r = 0 \<longrightarrow> Debit_Net_Amount r = 0 \<and> Credit_Net_Amount r = 0) \<and>
         (Amount r < 0 \<longrightarrow> \<not> 0 < Debit_Net_Amount r \<and> \<not> 0 < Credit_Net_Amount r)"
proof -
  have one: "(Debit_Net_Amount r = Amount r \<and> Credit_Net_Amount r = 0) \<or>
             (Debit_Net_Amount r = 0 \<and> Credit_Net_Amount r = Amount r)"
  proof -
    from assms show ?thesis
    proof (cases rule: unified_rows)
      case (card e)
      then show ?thesis
        by (simp add: fields_rederive expense_debit_credit)
    next
      case (bal b c)
      then show ?thesis
        by (auto simp: rederive_category_update fields_rederive category_update
            balance_debit_credit balance_row_fields mask_cases)
    qed
  qed
  then show ?thesis by auto
qed

theorem debit_credit_exclusive_witness:
  "rederive (balance_row Map.empty payout_example)
     \<in> set (unified Map.empty [] [payout_example]) \<and>
   Amount (rederive (balance_row Map.empty payout_example)) = 1200 \<and>
   Debit_Net_Amount (rederive (balance_row Map.empty payout_example)) = 1200 \<and>
   Credit_Net_Amount (rederive (balance_row Map.empty payout_example)) = 0 \<and>
   \<not> (0 < Debit_Net_Amount (rederive (balance_row Map.empty payout_example)) \<and>
      0 < Credit_Net_Amount (rederive (balance_row Map.empty payout_example)))"
proof -
  have m: "rederive (balance_row Map.empty payout_example)
     \<in> set (unified Map.empty [] [payout_example])"
    by (simp add: unified_single_payout payout_example_fields)
  from debit_credit_exclusive [OF m] m show ?thesis
    by (simp add: payout_unified_row)
qed

text \<open>
  Claim C3 as stated fails on the same row: its amount is \<open>-5\<close>.
\<close>

theorem amount_negative_counterexample:
  "unified Map.empty [] [negative_payout_example] =
     [rederive (balance_row Map.empty negative_payout_example)] \<and>
   Amount (rederive (balance_row Map.empty negative_payout_example)) = - 5 \<and>
   \<not> (\<forall>r \<in> set (unified Map.empty [] [negative_payout_example]). 0 \<le> Amount r)"
  by (simp add: unified_single_payout negative_payout_example_fields negative_unified_row)

theorem amount_signed_witness:
  "unified Map.empty [] [payout_example, negative_payout_example] =
     [rederive (balance_row Map.empty payout_example),
      rederive (balance_row Map.empty negative_payout_example)] \<and>
   CHR ''-'' \<notin> set (astype_str (amount_col payout_example)) \<and>
   Amount (rederive (balance_row Map.empty payout_example)) = clean_amount (Str ''$1,200.00'') \<and>
   0 \<le> Amount (rederive (balance_row Map.empty payout_example)) \<and>
   Amount (rederive (balance_row Map.empty negative_payout_example)) < 0 \<and>
   startswith ''-'' (keep_numeric_chars (astype_str (amount_col negative_payout_example)))"
proof -
  let ?p = "rederive (balance_row Map.empty payout_example)"
  let ?n = "rederive (balance_row Map.empty negative_payout_example)"
  have cat: "Expense_category (balance_row Map.empty payout_example) = Str ''Transfers''"
    by (simp add: balance_row_def Let_def balance_category_def payout_example_fields)
  have u: "unified Map.empty [] [payout_example, negative_payout_example] = [?p, ?n]"
    using cat
    by (simp add: unified_def final_dataframe_def expense_filtered_def balance_filtered_def
        concat_all_na_def payout_example_fields negative_payout_example_fields)
  have cells: "map billing_amount_col ([] :: expense_raw list) @
      map amount_col (filter mask [payout_example, negative_payout_example]) =
      [amount_col payout_example, amount_col negative_payout_example]"
    by (simp add: payout_example_fields negative_payout_example_fields)
  have nm: "CHR ''-'' \<notin> set (astype_str (amount_col payout_example))"
    by (simp add: payout_example_def)
  have neg: "Amount ?n < 0" by (simp add: negative_unified_row)
  note t = amount_signed [of Map.empty "[]" "[payout_example, negative_payout_example]"]
  have l: "list_all2
     (\<lambda>r c. Amount r = clean_amount c \<and>
             (CHR ''-'' \<notin> set (astype_str c) \<longrightarrow> 0 \<le> Amount r) \<and>
             (Amount r < 0 \<longrightarrow> startswith ''-'' (keep_numeric_chars (astype_str c))))
     [?p, ?n] [amount_col payout_example, amount_col negative_payout_example]"
    using t unfolding u cells .
  note l' = l [unfolded list_all2_Cons]
  have
    p: "Amount ?p = clean_amount (amount_col payout_example) \<and>
        (CHR ''-'' \<notin> set (astype_str (amount_col payout_example)) \<longrightarrow> 0 \<le> Amount ?p) \<and>
        (Amount ?p < 0 \<longrightarrow>
           startswith ''-'' (keep_numeric_chars (astype_str (amount_col payout_example))))"
    by (rule l' [THEN conjunct1])
  have
    n: "Amount ?n = clean_amount (amount_col negative_payout_example) \<and>
        (CHR ''-'' \<notin> set (astype_str (amount_col negative_payout_example)) \<longrightarrow> 0 \<le> Amount ?n) \<and>
        (Amount ?n < 0 \<longrightarrow>
           startswith ''-'' (keep_numeric_chars (astype_str (amount_col negative_payout_example))))"
    by (rule l' [THEN conjunct2, THEN conjunct1])
  have "Amount ?p = clean_amount (Str ''$1,200.00'')"
    using p [THEN conjunct1] by (simp add: payout_example_def)
  moreover have "0 \<le> Amount ?p"
    by (rule p [THEN conjunct2, THEN conjunct1, THEN mp, OF nm])
  moreover have
    "startswith ''-'' (keep_numeric_chars (astype_str (amount_col negative_payout_example)))"
    by (rule n [THEN conjunct2, THEN conjunct2, THEN mp, OF neg])
  ultimately show ?thesis using u nm neg by (intro conjI)
qed

section \<open>Counterparty extraction against its description in words\<close>

lemma lookahead_line:
  "CHR 0x0A \<notin> set s \<Longrightarrow> lookahead s \<longleftrightarrow> (case s of [] \<Rightarrow> True | c # cs \<Rightarrow> is_delim c)"
  by (cases s) auto

lemma lazy_group_line:
  "CHR 0x0A \<notin> set s \<Longrightarrow> s \<noteq> [] \<Longrightarrow> lazy_group s = Some (upto_delim s)"
proof (induction s)
  case Nil
  then show ?case by simp
next
  case (Cons c cs)
  show ?case
  proof (cases cs)
    case Nil
    with Cons.prems show ?thesis by simp
  next
    case (Cons d ds)
    with Cons.prems Cons.IH show ?thesis by (auto simp: lookahead_line)
  qed
qed

lemma strip_single_space: "is_space c \<Longrightarrow> strip [c] = []"
  by (simp add: strip_def lstrip_def rstrip_def)

lemma lstrip_Cons: "lstrip (c # cs) = (if is_space c then lstrip cs else c # cs)"
  by (simp add: lstrip_def)

lemma ws_star_line:
  "CHR 0x0A \<notin> set s \<Longrightarrow> s \<noteq> [] \<Longrightarrow>
   \<exists>g. ws_star s = Some g \<and> strip g = strip (upto_delim (lstrip s))"
proof (induction s)
  case Nil
  then show ?case by simp
next
  case (Cons c cs)
  show ?case
  proof (cases "is_space c")
    case False
    with Cons.prems show ?thesis
      using lazy_group_line [of "c # cs"] by (simp add: lstrip_Cons)
  next
    case sp: True
    show ?thesis
    proof (cases cs)
      case Nil
      with sp Cons.prems show ?thesis
        by (simp add: lstrip_Cons lookahead_line strip_single_space lstrip_def strip_def rstrip_def)
    next
      case (Cons d ds)
      with Cons.prems Cons.IH obtain g where
        "ws_star cs = Some g" "strip g = strip (upto_delim (lstrip cs))" by auto
      with sp show ?thesis by (simp add: lstrip_Cons)
    qed
  qed
qed

lemma match_here_short:
  "length s < 4 \<Longrightarrow> match_here prev s = None"
proof (cases s)
  case Nil
  then show ?thesis by simp
next
  case s1: (Cons a s')
  show "length s < 4 \<Longrightarrow> match_here prev s = None"
  proof (cases s')
    case Nil
    with s1 show ?thesis by simp
  next
    case s2: (Cons b s'')
    show "length s < 4 \<Longrightarrow> match_here prev s = None"
    proof (cases s'')
      case Nil
      with s1 s2 show ?thesis by simp
    next
      case s3: (Cons w s''')
      assume "length s < 4"
      with s1 s2 s3 have "s''' = []" by simp
      with s1 s2 s3 show ?thesis by simp
    qed
  qed
qed

lemma search_to_short: "length s < 4 \<Longrightarrow> search_to prev s = None"
  by (induction s arbitrary: prev) (simp_all add: match_here_short)

lemma match_here_line:
  assumes "CHR 0x0A \<notin> set (a # b # w # x # rest)"
  shows "if at_boundary prev \<and> a = CHR ''t'' \<and> b = CHR ''o'' \<and> is_space w
         then \<exists>g. match_here prev (a # b # w # x # rest) = Some g \<and>
                  strip g = strip (upto_delim (lstrip (w # x # rest)))
         else match_here prev (a # b # w # x # rest) = None"
proof -
  have "\<exists>g. ws_star (x # rest) = Some g \<and> strip g = strip (upto_delim (lstrip (x # rest)))"
    using assms ws_star_line [of "x # rest"] by simp
  then show ?thesis by (auto simp: lstrip_Cons)
qed

lemma search_to_line:
  "CHR 0x0A \<notin> set s \<Longrightarrow>
   map_option strip (search_to prev s) =
   map_option (\<lambda>rest. strip (upto_delim (lstrip rest))) (spec_after_to prev s)"
proof (induction prev s rule: spec_after_to.induct)
  case (1 prev a b w x rest)
  show ?case
  proof (cases "at_boundary prev \<and> a = CHR ''t'' \<and> b = CHR ''o'' \<and> is_space w")
    case True
    with match_here_line [OF "1.prems", of prev] obtain g where
      "match_here prev (a # b # w # x # rest) = Some g"
      "strip g = strip (upto_delim (lstrip (w # x # rest)))" by auto
    with True show ?thesis by simp
  next
    case False
    with match_here_line [OF "1.prems", of prev]
    have none: "match_here prev (a # b # w # x # rest) = None" by auto
    have ih: "map_option strip (search_to (Some a) (b # w # x # rest)) =
          map_option (\<lambda>rest. strip (upto_delim (lstrip rest)))
            (spec_after_to (Some a) (b # w # x # rest))"
      using "1.IH" [OF False] "1.prems" by simp
    have l: "search_to prev (a # b # w # x # rest) = search_to (Some a) (b # w # x # rest)"
      using none search_to.simps(2) [of prev a "b # w # x # rest"] by simp
    have r: "spec_after_to prev (a # b # w # x # rest) =
             spec_after_to (Some a) (b # w # x # rest)"
      by (subst spec_after_to.simps(1)) (simp only: False if_False)
    show ?thesis unfolding l r by (rule ih)
  qed
qed (simp_all add: search_to_short)

text \<open>
  Claim C4 as stated fails: the search is case-sensitive. For \<^verbatim>\<open>Payout TO James Brook\<close>
  the code finds nothing, while the rule as worded gives \<^verbatim>\<open>James Brook\<close>.
\<close>

theorem counterparty_nocase_counterexample:
  "Employee_of (Str ''Payout TO James Brook'') = NaN \<and>
   spec_counterparty_nocase ''Payout TO James Brook'' = Some ''James Brook''"
  by (simp add: Employee_of_def extract_to_def spec_counterparty_nocase_def is_delim_def
      text_defs)

text \<open>
  A letter above 127 in front of \<^verbatim>\<open>to\<close> is a word character, so there is no word boundary
  and nothing is extracted (the letter \<^verbatim>\<open>0xE9\<close> is e with an acute accent).
\<close>

lemma extraction_after_accented_letter:
  "Employee_of (Str (''pay Ren'' @ [CHR 0xE9] @ ''to Brook'')) = NaN"
  by (simp add: Employee_of_def extract_to_def is_delim_def text_defs)

text \<open>
  Claim C4, as the code has it. For every description without a line feed the extracted
  counterparty is the stripped text that follows the first lower-case \<^verbatim>\<open>to\<close> which starts
  at a word boundary and is followed by white space and at least one more character; the
  text starts after that white space and runs to the next of \<^verbatim>\<open>, ; ( )\<close> that is not its
  first character, or to the end. Without such an occurrence the counterparty is missing.
  Word boundary and white space are those of the regular expression on text of code points
  below 256.
\<close>

theorem counterparty_extraction:
  assumes "CHR 0x0A \<notin> set (astype_str d)"
  shows "Employee_of d =
         (case spec_counterparty (astype_str d) of None \<Rightarrow> NaN | Some n \<Rightarrow> Str n)"
proof -
  have "map_option strip (extract_to (astype_str d)) = spec_counterparty (astype_str d)"
    unfolding extract_to_def spec_counterparty_def using assms by (rule search_to_line)
  then have "spec_counterparty (astype_str d) = map_option strip (extract_to (astype_str d))"
    by (rule sym)
  then show ?thesis
    by (cases "extract_to (astype_str d)") (simp_all add: Employee_of_def)
qed

theorem counterparty_extraction_witness:
  "CHR 0x0A \<notin> set (astype_str (Str ''payout to  Mr James Brook (ref 7), to Ann'')) \<and>
   spec_counterparty ''payout to  Mr James Brook (ref 7), to Ann'' = Some ''Mr James Brook'' \<and>
   Employee_of (Str ''payout to  Mr James Brook (ref 7), to Ann'') = Str ''Mr James Brook'' \<and>
   CHR 0x0A \<notin> set (astype_str (Str ''refund for order 12'')) \<and>
   Employee_of (Str ''refund for order 12'') = NaN"
proof -
  have n1: "CHR 0x0A \<notin> set (astype_str (Str ''payout to  Mr James Brook (ref 7), to Ann''))"
    by simp
  have n2: "CHR 0x0A \<notin> set (astype_str (Str ''refund for order 12''))"
    by simp
  have s1: "spec_counterparty ''payout to  Mr James Brook (ref 7), to Ann'' = Some ''Mr James Brook''"
    by (simp add: spec_counterparty_def is_delim_def text_defs)
  have s2: "spec_counterparty ''refund for order 12'' = None"
    by (simp add: spec_counterparty_def is_delim_def text_defs)
  have "Employee_of (Str ''payout to  Mr James Brook (ref 7), to Ann'') = Str ''Mr James Brook''"
    using counterparty_extraction [OF n1] s1 by simp
  moreover have "Employee_of (Str ''refund for order 12'') = NaN"
    using counterparty_extraction [OF n2] s2 by simp
  ultimately show ?thesis using n1 n2 s1 by (intro conjI)
qed

section \<open>Missing-transaction checker\<close>

lemma map_cols_rows: "map_cols (d\<lparr>rows := rs\<rparr>) = map_cols d"
  by (simp add: map_cols_def)

lemma pick_name_rows: "pick_name (d\<lparr>rows := rs\<rparr>) m cands = pick_name d m cands"
  by (induction cands) (auto split: option.splits)

lemma set_dedupe: "set (dedupe names) = set names"
  by (simp add: dedupe_def)

lemma nice_names_tid:
  assumes "pick_name d (map_cols d) tid_candidates = Some c"
  shows "c \<in> set (dedupe (List.map_filter (pick_name d (map_cols d)) nice_candidates))"
  using assms by (simp add: set_dedupe nice_candidates_def map_filter_simps)

text \<open>The friendly subset keeps every row and the cell of the resolved id column.\<close>

lemma nice_subset_rows:
  assumes "pick_name d (map_cols d) tid_candidates = Some c"
    and "r' \<in> set (rows (nice_subset d))"
  shows "\<exists>r \<in> set (rows d). cell_at r' c = cell_at r c"
proof -
  let ?names = "dedupe (List.map_filter (pick_name d (map_cols d)) nice_candidates)"
  have c: "c \<in> set ?names" using assms(1) by (rule nice_names_tid)
  then have ne: "?names \<noteq> []" by auto
  from assms(2) ne obtain r where r: "r \<in> set (rows d)" "r' = r |` set ?names"
    by (auto simp: nice_subset_def Let_def)
  from c r(2) have "cell_at r' c = cell_at r c" by (simp add: cell_at_def)
  with r(1) show ?thesis by blast
qed

lemma only_rows_valid:
  assumes "pick_name d (map_cols d) tid_candidates = Some c"
    and "r' \<in> set (rows (nice_subset (d\<lparr>rows := filter (only_mask c other) (rows d)\<rparr>)))"
  shows "valid_id (norm_id (cell_at r' c))"
proof -
  let ?d = "d\<lparr>rows := filter (only_mask c other) (rows d)\<rparr>"
  have "pick_name ?d (map_cols ?d) tid_candidates = Some c"
    using assms(1) by (simp add: map_cols_rows pick_name_rows)
  from nice_subset_rows [OF this assms(2)] obtain r where
    "r \<in> set (rows ?d)" "cell_at r' c = cell_at r c" by blast
  then show ?thesis by (simp add: only_mask_def)
qed

lemma pair_missing_degraded:
  "pair_missing None B = (empty_frame, empty_frame)"
  "pair_missing A None = (empty_frame, empty_frame)"
  "df_empty a \<or> df_empty b \<Longrightarrow> pair_missing (Some a) (Some b) = (empty_frame, empty_frame)"
  "pick_name a (map_cols a) tid_candidates = None \<or>
   pick_name b (map_cols b) tid_candidates = None \<Longrightarrow>
     pair_missing (Some a) (Some b) = (empty_frame, empty_frame)"
  by (auto simp: pair_missing_def split: option.splits)

lemma pair_missing_rows:
  assumes "r \<in> set (rows (fst (pair_missing A B))) \<or> r \<in> set (rows (snd (pair_missing A B)))"
  obtains a b colA colB where "A = Some a" "B = Some b"
    "pick_name a (map_cols a) tid_candidates = Some colA"
    "pick_name b (map_cols b) tid_candidates = Some colB"
    "pair_missing A B =
       (nice_subset (a\<lparr>rows := filter (only_mask colA (valid_keys b colB)) (rows a)\<rparr>),
        nice_subset (b\<lparr>rows := filter (only_mask colB (valid_keys a colA)) (rows b)\<rparr>))"
  using assms
  by (auto simp: pair_missing_def empty_frame_def Let_def split: option.splits if_splits)

text \<open>
  Claim C7. When a frame is absent or empty, or the id column of either frame cannot be
  resolved, both results are the empty frame. Every row of either result has a normalised
  key (stripped, lowered) in its id column that is neither empty nor \<^verbatim>\<open>nan\<close>.
\<close>

theorem pair_missing_safe:
  "((A = None \<or> B = None) \<longrightarrow> pair_missing A B = (empty_frame, empty_frame)) \<and>
   ((df_empty a \<or> df_empty b \<or> pick_name a (map_cols a) tid_candidates = None \<or>
     pick_name b (map_cols b) tid_candidates = None)
      \<longrightarrow> pair_missing (Some a) (Some b) = (empty_frame, empty_frame)) \<and>
   (\<forall>r \<in> set (rows (fst (pair_missing A B))).
      \<exists>a' c. A = Some a' \<and> pick_name a' (map_cols a') tid_candidates = Some c \<and>
             norm_id (cell_at r c) \<noteq> [] \<and> norm_id (cell_at r c) \<noteq> ''nan'') \<and>
   (\<forall>r \<in> set (rows (snd (pair_missing A B))).
      \<exists>b' c. B = Some b' \<and> pick_name b' (map_cols b') tid_candidates = Some c \<and>
             norm_id (cell_at r c) \<noteq> [] \<and> norm_id (cell_at r c) \<noteq> ''nan'')"
proof (intro conjI impI ballI)
  assume "A = None \<or> B = None"
  then show "pair_missing A B = (empty_frame, empty_frame)"
    using pair_missing_degraded(1,2) by auto
next
  assume "df_empty a \<or> df_empty b \<or> pick_name a (map_cols a) tid_candidates = None \<or>
     pick_name b (map_cols b) tid_candidates = None"
  then show "pair_missing (Some a) (Some b) = (empty_frame, empty_frame)"
    using pair_missing_degraded(3,4) [of a b] by blast
next
  fix r
  assume r: "r \<in> set (rows (fst (pair_missing A B)))"
  then have "r \<in> set (rows (fst (pair_missing A B))) \<or> r \<in> set (rows (snd (pair_missing A B)))"
    by simp
  then obtain a' b' colA colB where *: "A = Some a'" "B = Some b'"
    "pick_name a' (map_cols a') tid_candidates = Some colA"
    "pair_missing A B =
       (nice_subset (a'\<lparr>rows := filter (only_mask colA (valid_keys b' colB)) (rows a')\<rparr>),
        nice_subset (b'\<lparr>rows := filter (only_mask colB (valid_keys a' colA)) (rows b')\<rparr>))"
    by (rule pair_missing_rows)
  from r *(4) have "valid_id (norm_id (cell_at r colA))"
    using only_rows_valid [OF *(3)] by simp
  with *(1,3) show "\<exists>a' c. A = Some a' \<and> pick_name a' (map_cols a') tid_candidates = Some c \<and>
             norm_id (cell_at r c) \<noteq> [] \<and> norm_id (cell_at r c) \<noteq> ''nan''"
    by (simp add: valid_id_def)
next
  fix r
  assume r: "r \<in> set (rows (snd (pair_missing A B)))"
  then have "r \<in> set (rows (fst (pair_missing A B))) \<or> r \<in> set (rows (snd (pair_missing A B)))"
    by simp
  then obtain a' b' colA colB where *: "A = Some a'" "B = Some b'"
    "pick_name b' (map_cols b') tid_candidates = Some colB"
    "pair_missing A B =
       (nice_subset (a'\<lparr>rows := filter (only_mask colA (valid_keys b' colB)) (rows a')\<rparr>),
        nice_subset (b'\<lparr>rows := filter (only_mask colB (valid_keys a' colA)) (rows b')\<rparr>))"
    by (rule pair_missing_rows)
  from r *(4) have "valid_id (norm_id (cell_at r colB))"
    using only_rows_valid [OF *(3)] by simp
  with *(2,3) show "\<exists>b' c. B = Some b' \<and> pick_name b' (map_cols b') tid_candidates = Some c \<and>
             norm_id (cell_at r c) \<noteq> [] \<and> norm_id (cell_at r c) \<noteq> ''nan''"
    by (simp add: valid_id_def)
qed

lemma frame_columns:
  "pick_name frame_a (map_cols frame_a) tid_candidates = Some ''Transaction Id''"
  "pick_name frame_b (map_cols frame_b) tid_candidates = Some ''transaction id''"
  "\<not> df_empty frame_a" "\<not> df_empty frame_b"
  by (simp_all add: frame_a_def frame_b_def map_cols_def tid_candidates_def df_empty_def
      text_defs)

lemma frame_keys:
  "valid_keys frame_a ''Transaction Id'' = [''a1'', ''b2'']"
  "valid_keys frame_b ''transaction id'' = [''b2'', ''c3'']"
  by (simp_all add: frame_a_def frame_b_def valid_keys_def valid_id_def norm_id_def cell_at_def
      text_defs)

lemma frame_only_rows:
  "filter (only_mask ''Transaction Id'' [''b2'', ''c3'']) (rows frame_a) =
     [[''Transaction Id'' \<mapsto> Str '' A1 '', ''Amount'' \<mapsto> Str ''5'']]"
  by (simp add: frame_a_def only_mask_def valid_id_def norm_id_def cell_at_def text_defs)

lemma length_nice_subset: "length (rows (nice_subset d)) = length (rows d)"
  by (simp add: nice_subset_def Let_def)

lemma frame_pair:
  "pair_missing (Some frame_a) (Some frame_b) =
     (nice_subset (frame_a\<lparr>rows :=
        filter (only_mask ''Transaction Id'' [''b2'', ''c3'']) (rows frame_a)\<rparr>),
      nice_subset (frame_b\<lparr>rows :=
        filter (only_mask ''transaction id'' [''a1'', ''b2'']) (rows frame_b)\<rparr>))"
  by (simp add: pair_missing_def frame_columns frame_keys)

theorem pair_missing_safe_witness:
  "df_empty empty_frame \<and>
   pair_missing (Some empty_frame) (Some frame_b) = (empty_frame, empty_frame) \<and>
   length (rows (fst (pair_missing (Some frame_a) (Some frame_b)))) = 1 \<and>
   list_all (\<lambda>r. norm_id (cell_at r ''Transaction Id'') \<noteq> [] \<and>
                 norm_id (cell_at r ''Transaction Id'') \<noteq> ''nan'')
     (rows (fst (pair_missing (Some frame_a) (Some frame_b))))"
proof -
  have e: "df_empty empty_frame" by (simp add: df_empty_def empty_frame_def)
  note t1 = pair_missing_safe [of "Some empty_frame" "Some frame_b" empty_frame frame_b]
  note t2 = pair_missing_safe [of "Some frame_a" "Some frame_b" frame_a frame_b]
  from e have "df_empty empty_frame \<or> df_empty frame_b \<or>
      pick_name empty_frame (map_cols empty_frame) tid_candidates = None \<or>
      pick_name frame_b (map_cols frame_b) tid_candidates = None" by simp
  then have deg: "pair_missing (Some empty_frame) (Some frame_b) = (empty_frame, empty_frame)"
    by (rule t1 [THEN conjunct2, THEN conjunct1, THEN mp])
  have len: "length (rows (fst (pair_missing (Some frame_a) (Some frame_b)))) = 1"
    by (simp add: frame_pair length_nice_subset frame_only_rows)
  have "\<forall>r \<in> set (rows (fst (pair_missing (Some frame_a) (Some frame_b)))).
      \<exists>a' c. Some frame_a = Some a' \<and> pick_name a' (map_cols a') tid_candidates = Some c \<and>
             norm_id (cell_at r c) \<noteq> [] \<and> norm_id (cell_at r c) \<noteq> ''nan''"
    by (rule t2 [THEN conjunct2, THEN conjunct2, THEN conjunct1])
  then have "\<forall>r \<in> set (rows (fst (pair_missing (Some frame_a) (Some frame_b)))).
      norm_id (cell_at r ''Transaction Id'') \<noteq> [] \<and>
      norm_id (cell_at r ''Transaction Id'') \<noteq> ''nan''"
    using frame_columns(1) by fastforce
  then have "list_all (\<lambda>r. norm_id (cell_at r ''Transaction Id'') \<noteq> [] \<and>
                 norm_id (cell_at r ''Transaction Id'') \<noteq> ''nan'')
     (rows (fst (pair_missing (Some frame_a) (Some frame_b))))"
    by (simp only: list_all_iff)
  with e deg len show ?thesis by (intro conjI)
qed

section \<open>Subscription amounts\<close>

















end
